theory Spec2Isabelle
  imports Main
begin

section \<open>JavaScript errors\<close>

text \<open>
  A throw, or the rejection of a promise, is a value of type \<open>js_error\<close>; a function
  that may throw returns \<open>js_error + 'a\<close> with \<open>Inl\<close> for the throw. An
  \<^verbatim>\<open>async\<close> function that throws returns a rejected promise, which its caller's
  \<^verbatim>\<open>await\<close> turns into a throw again, so both are the same \<open>Inl\<close>.
\<close>

datatype js_error =
    Error string
  | ReferenceError string
  | TypeError string

section \<open>The connector helper \<^verbatim>\<open>ensureWeb3\<close>\<close>

text \<open>
  \<^verbatim>\<open>
  const devchain = require('../commands/devchain')
  const Web3 = require('web3')

  const ensureWeb3 = async (network) => {
    let web3
    try {
      web3 = new Web3(network)
      const connected = await ctx.web3.eth.net.isListening()
      if (connected) return web3
    } catch (err) {
      throw new Error(`Please execute aragon run before running this`)
    }
  }
  \<close>
  The identifiers bound where the body of \<^verbatim>\<open>ensureWeb3\<close> is evaluated are the two
  module constants, the helper itself, the parameter and the locals, and the names Node
  gives every module. Evaluating an identifier that none of them binds throws a
  ReferenceError.
\<close>

definition ensureWeb3_scope :: "string list" where
  "ensureWeb3_scope =
     [''devchain'', ''Web3'', ''ensureWeb3'', ''network'', ''web3'', ''connected'', ''err'',
      ''module'', ''exports'', ''require'', ''__filename'', ''__dirname'']"

definition lookupIdentifier :: "string list \<Rightarrow> string \<Rightarrow> js_error + unit" where
  "lookupIdentifier scope x =
     (if x \<in> set scope then Inr () else Inl (ReferenceError (x @ '' is not defined'')))"

text \<open>
  The parameters are the two things the helper gets from outside: the constructor
  \<open>Web3\<close> (which may throw) and what \<^verbatim>\<open>isListening()\<close> would answer if it were
  reached. The result \<open>Inr (Some web3)\<close> is the connected instance, \<open>Inr None\<close> the
  \<^verbatim>\<open>undefined\<close> of falling off the end of the function.
\<close>

definition ensureWeb3_try :: "(string \<Rightarrow> js_error + 'w) \<Rightarrow> (js_error + bool) \<Rightarrow> string \<Rightarrow> js_error + 'w option" where
  "ensureWeb3_try Web3 isListening network =
     (case Web3 network of
        Inl err \<Rightarrow> Inl err
      | Inr web3 \<Rightarrow>
          (case lookupIdentifier ensureWeb3_scope ''ctx'' of
             Inl err \<Rightarrow> Inl err
           | Inr _ \<Rightarrow>
               (case isListening of
                  Inl err \<Rightarrow> Inl err
                | Inr connected \<Rightarrow> Inr (if connected then Some web3 else None))))"

definition ensureWeb3 :: "(string \<Rightarrow> js_error + 'w) \<Rightarrow> (js_error + bool) \<Rightarrow> string \<Rightarrow> js_error + 'w option" where
  "ensureWeb3 Web3 isListening network =
     (case ensureWeb3_try Web3 isListening network of
        Inl err \<Rightarrow> Inl (Error ''Please execute aragon run before running this'')
      | Inr r \<Rightarrow> Inr r)"

section \<open>Fetching the client: \<^verbatim>\<open>fetchClient\<close>\<close>

text \<open>
  \<^verbatim>\<open>
  export async function fetchClient(ctx, task, clientVersion) {
    ctx.clientFetch = true
    ctx.clientAvailable = true

    const CLIENT_PATH = `${os.homedir()}/.aragon/client-${clientVersion}`
    ctx.clientPath = CLIENT_PATH

    // Make sure we haven't already downloaded the client
    if (existsSync(path.resolve(CLIENT_PATH))) {
      task.skip('Client already fetched')
      return
    }

    // Get prebuild client from aragen
    const files = path.resolve(
      require.resolve('@aragon/aragen'),
      '../ipfs-cache',
      '@aragon/aragon'
    )

    // Ensure folder exists
    const BUILD_PATH = path.join(CLIENT_PATH, 'build')
    ensureDirSync(BUILD_PATH)

    // Copy files
    await copy(files, BUILD_PATH)
  }
  \<close>
  The context object is a record whose fields are \<open>None\<close> while the property is
  \<^verbatim>\<open>undefined\<close>. The libraries (\<^verbatim>\<open>os\<close>, \<^verbatim>\<open>path\<close>, \<^verbatim>\<open>fs-extra\<close>,
  \<^verbatim>\<open>require.resolve\<close>) are a record of functions over a file system of any type
  \<open>'fs\<close>; the two calls that change the file system are also logged.
\<close>

record client_ctx =
  clientFetch :: "bool option"
  clientAvailable :: "bool option"
  clientPath :: "string option"

datatype fs_call = EnsureDirSync string | Copy string string

record 'fs node_libs =
  homedir :: string
  path_resolve :: "string list \<Rightarrow> string"
  path_join :: "string list \<Rightarrow> string"
  require_resolve :: "string \<Rightarrow> js_error + string"
  existsSync :: "'fs \<Rightarrow> string \<Rightarrow> bool"
  ensureDirSync :: "'fs \<Rightarrow> string \<Rightarrow> js_error + 'fs"
  copy :: "'fs \<Rightarrow> string \<Rightarrow> string \<Rightarrow> js_error + 'fs"

record 'fs fetch_result =
  ctx_after :: client_ctx
  fs_after :: 'fs
  fs_calls :: "fs_call list"
  skipped :: "string option"
  thrown :: "js_error option"

definition fetchClient :: "'fs node_libs \<Rightarrow> 'fs \<Rightarrow> client_ctx \<Rightarrow> string \<Rightarrow> 'fs fetch_result" where
  "fetchClient libs fs ctx clientVersion =
     (let CLIENT_PATH = homedir libs @ ''/.aragon/client-'' @ clientVersion;
          ctx' = ctx\<lparr>clientFetch := Some True, clientAvailable := Some True,
                     clientPath := Some CLIENT_PATH\<rparr>;
          base = \<lparr>ctx_after = ctx', fs_after = fs, fs_calls = [], skipped = None, thrown = None\<rparr>
      in
      if existsSync libs fs (path_resolve libs [CLIENT_PATH])
      then base\<lparr>skipped := Some ''Client already fetched''\<rparr>
      else
        (case require_resolve libs ''@aragon/aragen'' of
           Inl err \<Rightarrow> base\<lparr>thrown := Some err\<rparr>
         | Inr aragen \<Rightarrow>
             (let files = path_resolve libs [aragen, ''../ipfs-cache'', ''@aragon/aragon''];
                  BUILD_PATH = path_join libs [CLIENT_PATH, ''build'']
              in
              case ensureDirSync libs fs BUILD_PATH of
                Inl err \<Rightarrow> base\<lparr>fs_calls := [EnsureDirSync BUILD_PATH], thrown := Some err\<rparr>
              | Inr fs1 \<Rightarrow>
                  (case copy libs fs1 files BUILD_PATH of
                     Inl err \<Rightarrow>
                       base\<lparr>fs_after := fs1,
                            fs_calls := [EnsureDirSync BUILD_PATH, Copy files BUILD_PATH],
                            thrown := Some err\<rparr>
                   | Inr fs2 \<Rightarrow>
                       base\<lparr>fs_after := fs2,
                            fs_calls := [EnsureDirSync BUILD_PATH, Copy files BUILD_PATH]\<rparr>))))"

text \<open>
  A small file system for running \<open>fetchClient\<close>: the list of the paths that exist.
  \<open>os.homedir()\<close> is \<^verbatim>\<open>/home/dev\<close>, paths are joined with \<^verbatim>\<open>/\<close>, and a copy
  makes the destination's \<^verbatim>\<open>index.html\<close>.
\<close>

fun join_slash :: "string list \<Rightarrow> string" where
  "join_slash [] = []"
| "join_slash [p] = p"
| "join_slash (p # q # ps) = p @ ''/'' @ join_slash (q # ps)"

definition list_libs :: "string list node_libs" where
  "list_libs =
     \<lparr>homedir = ''/home/dev'',
      path_resolve = join_slash,
      path_join = join_slash,
      require_resolve = (\<lambda>m. Inr (''/usr/lib/node_modules/'' @ m @ ''/index.js'')),
      existsSync = (\<lambda>fs p. p \<in> set fs),
      ensureDirSync = (\<lambda>fs p. Inr (p # fs)),
      copy = (\<lambda>fs src dst. Inr ((dst @ ''/index.html'') # fs))\<rparr>"

definition empty_client_ctx :: client_ctx where
  "empty_client_ctx = \<lparr>clientFetch = None, clientAvailable = None, clientPath = None\<rparr>"

section \<open>The local binary resolver \<^verbatim>\<open>getLocalBinary\<close>\<close>

text \<open>
  Modelled from the spec: \<^verbatim>\<open>getLocalBinary(binaryName, packageRoot)\<close> of
  \<^verbatim>\<open>src/util.js\<close>. The sources hold its test (\<^verbatim>\<open>test/util.test.js\<close>) but not the
  function, so the definitions of this section follow the words of the spec:

  "given an executable name and a starting directory, check
  \<^verbatim>\<open><dir>/node_modules/.bin/<name>\<close>; if absent, move to the parent directory and retry,
  additionally accounting for scoped-package directory nesting (an extra parent level
  when the immediate parent segment begins with an "@" scope marker); terminate
  unsuccessfully at the filesystem root", and "when the immediate parent directory name
  is scope-prefixed (begins with \<^verbatim>\<open>@\<close>), resolution must skip one additional directory
  level before checking \<^verbatim>\<open>node_modules/.bin\<close>".

  A directory is the list of its path segments below the root, the root being \<open>[]\<close>;
  \<open>fsExistsSync\<close> is the file system's answer (\<^verbatim>\<open>fs.existsSync\<close>) for a path. The
  result is the path found (or \<open>None\<close>, the "not found" signal) together with the
  paths handed to \<open>fsExistsSync\<close>, in order. The test stubs \<^verbatim>\<open>fs.existsSync\<close> by the
  number of the call; here existence is a property of the path, as the spec states it.
\<close>

type_synonym path = "string list"

text \<open>
  Modelled from the spec: the scope marker. A path segment is scoped when it begins with
  \<^verbatim>\<open>@\<close>.
\<close>

fun scoped :: "string \<Rightarrow> bool" where
  "scoped [] = False"
| "scoped (c # cs) = (c = CHR ''@'')"

text \<open>
  Modelled from the spec: the path checked at a directory,
  \<^verbatim>\<open><dir>/node_modules/.bin/<name>\<close>.
\<close>

definition binaryPath :: "string \<Rightarrow> path \<Rightarrow> path" where
  "binaryPath binaryName dir = dir @ [''node_modules'', ''.bin'', binaryName]"

text \<open>
  Modelled from the spec: the move to the parent directory. It takes an extra parent
  level when the parent's segment is scoped, so that a scope directory is skipped.
\<close>

definition parentLevel :: "path \<Rightarrow> path" where
  "parentLevel dir =
     (let parent = butlast dir in
      if parent \<noteq> [] \<and> scoped (last parent) then butlast parent else parent)"

text \<open>
  Modelled from the spec: the resolver. It checks the path of the directory; if the
  binary is absent it moves to the parent level and retries; at the root it ends without
  success.
\<close>

function getLocalBinary :: "(path \<Rightarrow> bool) \<Rightarrow> string \<Rightarrow> path \<Rightarrow> path option \<times> path list" where
  "getLocalBinary fsExistsSync binaryName packageRoot =
     (if fsExistsSync (binaryPath binaryName packageRoot)
      then (Some (binaryPath binaryName packageRoot), [binaryPath binaryName packageRoot])
      else if packageRoot = [] then (None, [binaryPath binaryName packageRoot])
      else (case getLocalBinary fsExistsSync binaryName (parentLevel packageRoot) of
              (found, checked) \<Rightarrow> (found, binaryPath binaryName packageRoot # checked)))"
  by pat_completeness auto

termination
  by (relation "measure (\<lambda>(fsExistsSync, binaryName, packageRoot). length packageRoot)")
     (auto simp: parentLevel_def Let_def)

declare getLocalBinary.simps [simp del]

text \<open>
  The ancestor levels of a directory: the directory itself, its parent, and so on up to
  the root.
\<close>

definition ancestors :: "path \<Rightarrow> path list" where
  "ancestors dir = map (\<lambda>k. take k dir) (rev [0..<Suc (length dir)])"

section \<open>The \<^verbatim>\<open>run\<close> command (\<^verbatim>\<open>src/commands/run.js\<close>)\<close>

subsection \<open>Values, external operations and the trace\<close>

text \<open>
  The handler of \<^verbatim>\<open>run\<close> builds a list of tasks and lets the task runner execute them
  one after the other on one shared context object \<^verbatim>\<open>ctx\<close>. Everything a task does
  to the outside (the compiler, the Ethereum node, IPFS, the file system, subprocesses)
  is a call into a library that is not part of this repository. The model keeps the
  handler's own control flow and data flow and takes the answers of the outside as a
  parameter, the record \<open>world\<close>.

  An address is the string the node returned. A truffle artifact is read from a JSON
  file; the handler uses its \<^verbatim>\<open>contractName\<close>, \<^verbatim>\<open>abi\<close> and \<^verbatim>\<open>bytecode\<close>. The
  arguments of a contract method are addresses (possibly \<^verbatim>\<open>undefined\<close>, that is
  \<open>None\<close>) or hashes of fixed strings, which are kept symbolic.
\<close>

type_synonym address = string

record artifact =
  contractName :: string
  bytecode :: string

datatype jsarg = Addr "address option" | Namehash string | Keccak string

datatype envval = Lit string | WsPort nat | EnvAddr "address option"

text \<open>
  An \<open>op\<close> is one call into a library, with the arguments the handler passes. Every
  transaction is sent with the gas limit \<^verbatim>\<open>TX_MIN_GAS = 10e6\<close>, which is left out.
\<close>

datatype op =
    RunTruffle "string list"
  | Web3New string
  | IsListening
  | DevchainTask
  | GetAccounts
  | IsIPFSRunning
  | IsIPFSInstalled
  | StartIPFSDaemon
  | Opn string
  | Deploy artifact "address option" "address option list"
  | MethodSend string "address option" "jsarg list" "address option"
  | MethodCall string "address option"
  | ApmNew "address option"
  | PublishTask "address option"
  | FindProjectRoot
  | FsExistsSync string
  | ReadJsonSync string
  | FsEnsureDirSync string
  | GitClone string string string
  | Execa string "string list" "string option" "(string \<times> envval) list"
  | WriteTruffleConfig "address option"

text \<open>
  The trace records what the handler does, in order:
  \<^item> \<open>Call op\<close>: a synchronous call;
  \<^item> \<open>Await op\<close>: an asynchronous operation whose promise is awaited (or returned to
    the task runner, which awaits it) before anything else happens;
  \<^item> \<open>AwaitAll ops\<close>: operations started one after the other without waiting, whose
    promises are then awaited together (\<^verbatim>\<open>Promise.all\<close>); all of them are pending at
    the same time;
  \<^item> \<open>Detached op\<close>: an operation that is started and whose promise is dropped;
  \<^item> \<open>Timer ms op\<close>: \<^verbatim>\<open>setTimeout(() => op, ms)\<close>;
  \<^item> \<open>ReadContract k v\<close>: the read \<^verbatim>\<open>ctx.contracts[k]\<close>, which gave \<open>v\<close>
    (\<open>None\<close> is \<^verbatim>\<open>undefined\<close>), and \<open>StoreContract k a\<close>: the assignment
    \<^verbatim>\<open>ctx.contracts[k] = a\<close>;
  \<^item> \<open>Skipped title message\<close>: the task was marked as skipped.
\<close>

datatype event =
    Call op
  | Await op
  | AwaitAll "op list"
  | Detached op
  | Timer nat op
  | ReadContract string "address option"
  | StoreContract string address
  | Skipped string string

text \<open>
  The context object. A property that has not been assigned is \<open>None\<close>. The web3
  instance is identified with the provider it was built on.
\<close>

record run_ctx =
  web3 :: "string option"
  accounts :: "address list option"
  contracts :: "(string \<rightharpoonup> address) option"
  registryAddress :: "address option"
  ensAddress :: "address option"
  daoAddress :: "address option"
  aclAddress :: "address option"
  appAddress :: "address option"
  apm :: "address option option"
  wrapperPath :: "string option"
  wrapperAvailable :: "bool option"

record run_state =
  cx :: run_ctx
  trace :: "event list"

subsection \<open>Sequencing, throwing and catching\<close>

text \<open>
  A piece of the handler is a function from the state to a result and the new state;
  the result is \<open>Inl e\<close> when it throws (or its promise is rejected with) \<open>e\<close>.
  \<open>andThen\<close> is sequencing (\<^verbatim>\<open>await\<close>, \<^verbatim>\<open>.then\<close>): a throw skips what follows.
  \<open>catch\<close> is \<^verbatim>\<open>try { } catch (err) { }\<close> and \<^verbatim>\<open>.catch\<close>. \<open>settle r\<close> is the answer
  \<open>r\<close> of the outside.
\<close>

type_synonym 'a prog = "run_state \<Rightarrow> (js_error + 'a) \<times> run_state"

definition ret :: "'a \<Rightarrow> 'a prog" where
  "ret x = (\<lambda>s. (Inr x, s))"

definition throw :: "js_error \<Rightarrow> 'a prog" where
  "throw e = (\<lambda>s. (Inl e, s))"

definition andThen :: "'a prog \<Rightarrow> ('a \<Rightarrow> 'b prog) \<Rightarrow> 'b prog" where
  "andThen m k = (\<lambda>s. case m s of (Inl e, s') \<Rightarrow> (Inl e, s') | (Inr x, s') \<Rightarrow> k x s')"

definition andNext :: "'a prog \<Rightarrow> 'b prog \<Rightarrow> 'b prog" where
  "andNext m k = andThen m (\<lambda>_. k)"

definition catch :: "'a prog \<Rightarrow> (js_error \<Rightarrow> 'a prog) \<Rightarrow> 'a prog" where
  "catch m h = (\<lambda>s. case m s of (Inl e, s') \<Rightarrow> h e s' | (Inr x, s') \<Rightarrow> (Inr x, s'))"

definition settle :: "js_error + 'a \<Rightarrow> 'a prog" where
  "settle r = (\<lambda>s. (r, s))"

definition emit :: "event \<Rightarrow> unit prog" where
  "emit ev = (\<lambda>s. (Inr (), s\<lparr>trace := trace s @ [ev]\<rparr>))"

definition getCtx :: "run_ctx prog" where
  "getCtx = (\<lambda>s. (Inr (cx s), s))"

definition setCtx :: "(run_ctx \<Rightarrow> run_ctx) \<Rightarrow> unit prog" where
  "setCtx f = (\<lambda>s. (Inr (), s\<lparr>cx := f (cx s)\<rparr>))"

definition await :: "op \<Rightarrow> js_error + 'a \<Rightarrow> 'a prog" where
  "await op r = andNext (emit (Await op)) (settle r)"

definition call :: "op \<Rightarrow> js_error + 'a \<Rightarrow> 'a prog" where
  "call op r = andNext (emit (Call op)) (settle r)"

fun mapP :: "('a \<Rightarrow> 'b prog) \<Rightarrow> 'a list \<Rightarrow> 'b list prog" where
  "mapP f [] = ret []"
| "mapP f (x # xs) = andThen (f x) (\<lambda>y. andThen (mapP f xs) (\<lambda>ys. ret (y # ys)))"

fun forEachP :: "('a \<Rightarrow> unit prog) \<Rightarrow> 'a list \<Rightarrow> unit prog" where
  "forEachP f [] = ret ()"
| "forEachP f (x # xs) = andNext (f x) (forEachP f xs)"

subsection \<open>The outside\<close>

text \<open>
  What the libraries answer. Each field is the outcome of one kind of call, as a
  function of the call's arguments: \<open>Inl e\<close> when the call throws or its promise is
  rejected. \<open>w_require\<close> loads an artifact file, \<open>w_deploy\<close> deploys a contract and
  gives its address, \<open>w_send\<close> sends a transaction and gives the address carried by
  each event of the receipt, \<open>w_call\<close> is a read-only call. The helpers
  \<^verbatim>\<open>runTruffle\<close>, \<^verbatim>\<open>devchain.task\<close>, \<^verbatim>\<open>isIPFSRunning\<close>, \<^verbatim>\<open>isIPFSInstalled\<close>,
  \<^verbatim>\<open>startIPFSDaemon\<close>, \<^verbatim>\<open>findProjectRoot\<close>, \<^verbatim>\<open>writeTruffleConfig\<close> and
  \<^verbatim>\<open>publish.task\<close> are modules of the repository whose sources are not among the
  files; the handler only calls them, and their answers are fields of the world too.
\<close>

record world =
  w_findProjectRoot :: "js_error + string"
  w_readJsonSync :: "string \<Rightarrow> js_error + unit"
  w_runTruffle :: "string list \<Rightarrow> js_error + unit"
  w_Web3 :: "string \<Rightarrow> js_error + unit"
  w_isListening :: "js_error + bool"
  w_devchain :: "js_error + unit"
  w_getAccounts :: "js_error + address list"
  w_isIPFSRunning :: "js_error + bool"
  w_isIPFSInstalled :: "js_error + bool"
  w_startIPFSDaemon :: "js_error + unit"
  w_require :: "string \<Rightarrow> js_error + artifact"
  w_deploy :: "artifact \<Rightarrow> address option list \<Rightarrow> js_error + address"
  w_send :: "string \<Rightarrow> jsarg list \<Rightarrow> js_error + (string \<rightharpoonup> address)"
  w_call :: "string \<Rightarrow> address option \<Rightarrow> js_error + address"
  w_publish :: "address option \<Rightarrow> js_error + unit"
  w_existsSync :: "string \<Rightarrow> bool"
  w_ensureDirSync :: "string \<Rightarrow> js_error + unit"
  w_clone :: "string \<Rightarrow> js_error + unit"
  w_execa :: "string \<Rightarrow> string list \<Rightarrow> js_error + unit"
  w_writeTruffleConfig :: "address option \<Rightarrow> js_error + unit"
  w_homedir :: string
  w_basename :: "string \<Rightarrow> string \<Rightarrow> string"
  w_resolve :: "string list \<Rightarrow> string"

text \<open>
  The arguments of the handler: \<^verbatim>\<open>cwd\<close>, \<^verbatim>\<open>network.provider\<close>, the manifest
  \<^verbatim>\<open>module\<close> (its \<^verbatim>\<open>path\<close>, \<^verbatim>\<open>appName\<close> and the ids of its \<^verbatim>\<open>roles\<close>, \<open>None\<close>
  when the manifest has no \<^verbatim>\<open>roles\<close>) and \<^verbatim>\<open>port\<close>.
\<close>

record run_args =
  cwd :: string
  provider :: string
  module_path :: string
  module_appName :: string
  module_roles :: "string list option"
  port :: nat

subsection \<open>The task runner\<close>

text \<open>
  A task of the list has a title, a function \<^verbatim>\<open>task\<close> and optionally \<^verbatim>\<open>skip\<close> and
  \<^verbatim>\<open>enabled\<close>. The runner takes the tasks in order: a task that is not enabled is
  passed over; if \<^verbatim>\<open>skip\<close> gives a message the task is marked skipped with it;
  otherwise the task function runs, and a list of tasks it returns runs in its place on
  the same context. The first task that throws ends the run.
\<close>

record task =
  title :: string
  enabled :: "run_ctx \<Rightarrow> bool"
  skip :: "string option prog"
  body :: "unit prog"

definition plain :: "string \<Rightarrow> unit prog \<Rightarrow> task" where
  "plain t b = \<lparr>title = t, enabled = (\<lambda>_. True), skip = ret None, body = b\<rparr>"

definition runTask :: "task \<Rightarrow> unit prog" where
  "runTask t =
     andThen getCtx (\<lambda>ctx.
       if enabled t ctx
       then andThen (skip t) (\<lambda>skipped.
              case skipped of
                Some msg \<Rightarrow> emit (Skipped (title t) msg)
              | None \<Rightarrow> body t)
       else ret ())"

fun runTasks :: "task list \<Rightarrow> unit prog" where
  "runTasks [] = ret ()"
| "runTasks (t # ts) = andNext (runTask t) (runTasks ts)"

subsection \<open>Helpers of the handler\<close>

text \<open>
  \<^verbatim>\<open>
  function getContract (pkg, contract) {
    const artifact = require(`${pkg}/build/contracts/${contract}.json`)
    return artifact
  }

  function deployContract (web3, sender, { abi, bytecode }, args = []) {
    const contract = new web3.eth.Contract(abi)

    return contract.deploy({
      data: bytecode,
      arguments: args
    }).send({
      from: sender,
      gas: TX_MIN_GAS
    }).then((instance) => {
      return instance.options.address
    })
  }

  async function setPermissions (web3, sender, aclAddress, permissions) {
    const acl = new web3.eth.Contract(
      getContract('@aragon/os', 'ACL').abi,
      aclAddress
    )
    return Promise.all(
      permissions.map(([who, where, what]) =>
        acl.methods.createPermission(who, where, '0x' + keccak256(what), who).send({
          from: sender,
          gasLimit: TX_MIN_GAS
        })
      )
    )
  }
  \<close>
  Reading a property of \<^verbatim>\<open>undefined\<close> throws a TypeError: \<open>web3Eth\<close> is the read
  \<^verbatim>\<open>ctx.web3.eth\<close>, \<open>accounts0\<close> is \<^verbatim>\<open>ctx.accounts[0]\<close> (which is \<^verbatim>\<open>undefined\<close> for
  an empty list), \<open>readContract\<close> and \<open>storeContract\<close> are the accesses to
  \<^verbatim>\<open>ctx.contracts\<close>, and \<open>eventValue\<close> is \<^verbatim>\<open>events[name].returnValues\<close>. A read of
  \<^verbatim>\<open>ctx.contracts[k]\<close> is logged whether it finds an address or not: when the object
  itself is \<^verbatim>\<open>undefined\<close> the read is logged as one that found nothing, and throws.

  In \<open>setPermissions\<close> every \<^verbatim>\<open>send\<close> is started inside \<^verbatim>\<open>map\<close>, before any of them
  is awaited; the model logs them as one \<open>AwaitAll\<close> and then takes their outcomes in
  list order, failing with the first rejection.
\<close>

definition ANY_ENTITY :: address where
  "ANY_ENTITY = ''0xffffffffffffffffffffffffffffffffffffffff''"

definition artifactPath :: "string \<Rightarrow> string \<Rightarrow> string" where
  "artifactPath pkg contract = pkg @ ''/build/contracts/'' @ contract @ ''.json''"

definition getContract :: "world \<Rightarrow> string \<Rightarrow> string \<Rightarrow> artifact prog" where
  "getContract w pkg contract = settle (w_require w (artifactPath pkg contract))"

definition web3Eth :: "string prog" where
  "web3Eth =
     andThen getCtx (\<lambda>ctx.
       case web3 ctx of
         None \<Rightarrow> throw (TypeError ''Cannot read property eth of undefined'')
       | Some w3 \<Rightarrow> ret w3)"

definition accounts0 :: "address option prog" where
  "accounts0 =
     andThen getCtx (\<lambda>ctx.
       case accounts ctx of
         None \<Rightarrow> throw (TypeError ''Cannot read property 0 of undefined'')
       | Some [] \<Rightarrow> ret None
       | Some (a # _) \<Rightarrow> ret (Some a))"

definition readContract :: "string \<Rightarrow> address option prog" where
  "readContract k =
     andThen getCtx (\<lambda>ctx.
       case contracts ctx of
         None \<Rightarrow>
           andNext (emit (ReadContract k None))
                   (throw (TypeError (''Cannot read property '' @ k @ '' of undefined'')))
       | Some m \<Rightarrow> andNext (emit (ReadContract k (m k))) (ret (m k)))"

definition storeContract :: "string \<Rightarrow> address \<Rightarrow> unit prog" where
  "storeContract k a =
     andThen getCtx (\<lambda>ctx.
       case contracts ctx of
         None \<Rightarrow> throw (TypeError (''Cannot set property '' @ k @ '' of undefined''))
       | Some m \<Rightarrow>
           andNext (setCtx (\<lambda>c. c\<lparr>contracts := Some (m(k \<mapsto> a))\<rparr>))
                   (emit (StoreContract k a)))"

definition eventValue :: "(string \<rightharpoonup> address) \<Rightarrow> string \<Rightarrow> address prog" where
  "eventValue events name =
     (case events name of
        None \<Rightarrow> throw (TypeError ''Cannot read property returnValues of undefined'')
      | Some a \<Rightarrow> ret a)"

definition deployContract :: "world \<Rightarrow> address option \<Rightarrow> artifact \<Rightarrow> address option list \<Rightarrow> address prog" where
  "deployContract w sender art args =
     andNext web3Eth (await (Deploy art sender args) (w_deploy w art args))"

definition setPermissions :: "world \<Rightarrow> address option \<Rightarrow> address option \<Rightarrow> (address option \<times> address option \<times> string) list \<Rightarrow> unit prog" where
  "setPermissions w sender aclAddr permissions =
     andNext web3Eth (
     andNext (getContract w ''@aragon/os'' ''ACL'') (
     andNext (emit (AwaitAll (map (\<lambda>(who, wher, what).
                MethodSend ''createPermission'' aclAddr
                  [Addr who, Addr wher, Keccak what, Addr who] sender) permissions))) (
       forEachP (\<lambda>(who, wher, what).
         andNext (settle (w_send w ''createPermission''
                    [Addr who, Addr wher, Keccak what, Addr who]))
                 (ret ())) permissions)))"

subsection \<open>The tasks\<close>

text \<open>
  \<^verbatim>\<open>
  {
    title: 'Compile contracts',
    task: async () => {
      await runTruffle(['compile'], { stdout: null })
    }
  },
  {
    title: 'Connect to the provided Ethereum network',
    task: async (ctx, task) => {
      const getWeb3 = () => new Web3(network.provider)

      try {
        ctx.web3 = getWeb3()
        const connected = await ctx.web3.eth.net.isListening()
      } catch (err) {
        await devchain.task({}).then(() => {
          ctx.web3 = getWeb3()
        })
      }
      ctx.accounts = await ctx.web3.eth.getAccounts()
    }
  },
  {
    title: 'Start IPFS',
    skip: async () => {
      const running = await isIPFSRunning()
      if (running) return 'IPFS daemon already running'
    },
    task: async () => {
      const installed = await isIPFSInstalled()
      if (!installed) {
        setTimeout(() => opn('https://ipfs.io/docs/install'), 3000)
        throw new Error(`
          Running your app requires IPFS. Opening install instructions in your browser`
        )
      } else {
        await startIPFSDaemon()
      }
    }
  },
  \<close>
  (The message of the error is kept without the line break and the indentation of the
  template string.)
\<close>

definition apmBaseContracts :: "(string \<times> string) list" where
  "apmBaseContracts =
     [(''@aragon/os'', ''APMRegistry''),
      (''@aragon/os'', ''Repo''),
      (''@aragon/os'', ''ENSSubdomainRegistrar''),
      (''@aragon/os'', ''ENSFactory''),
      (''@aragon/os'', ''Kernel''),
      (''@aragon/os'', ''ACL'')]"

definition compileContracts :: "world \<Rightarrow> unit prog" where
  "compileContracts w = await (RunTruffle [''compile'']) (w_runTruffle w [''compile''])"

definition getWeb3 :: "world \<Rightarrow> run_args \<Rightarrow> unit prog" where
  "getWeb3 w args =
     andNext (call (Web3New (provider args)) (w_Web3 w (provider args)))
             (setCtx (\<lambda>c. c\<lparr>web3 := Some (provider args)\<rparr>))"

definition connectNetwork :: "world \<Rightarrow> run_args \<Rightarrow> unit prog" where
  "connectNetwork w args =
     andNext
       (catch
         (
          andNext (getWeb3 w args) (
          andNext web3Eth (
          andThen (await IsListening (w_isListening w)) (\<lambda>connected.
            ret ()))))
         (\<lambda>err.
            andNext (await DevchainTask (w_devchain w)) (
              getWeb3 w args)))
       (
       andNext web3Eth (
       andThen (await GetAccounts (w_getAccounts w)) (\<lambda>accs.
         setCtx (\<lambda>c. c\<lparr>accounts := Some accs\<rparr>))))"

definition startIPFS_skip :: "world \<Rightarrow> string option prog" where
  "startIPFS_skip w =
     andThen (await IsIPFSRunning (w_isIPFSRunning w)) (\<lambda>running.
       if running then ret (Some ''IPFS daemon already running'') else ret None)"

definition startIPFS_task :: "world \<Rightarrow> unit prog" where
  "startIPFS_task w =
     andThen (await IsIPFSInstalled (w_isIPFSInstalled w)) (\<lambda>installed.
       if \<not> installed
       then andNext (emit (Timer 3000 (Opn ''https://ipfs.io/docs/install'')))
              (throw (Error ''Running your app requires IPFS. Opening install instructions in your browser''))
       else await StartIPFSDaemon (w_startIPFSDaemon w))"

definition startIPFS :: "world \<Rightarrow> task" where
  "startIPFS w =
     \<lparr>title = ''Start IPFS'', enabled = (\<lambda>_. True),
      skip = startIPFS_skip w, body = startIPFS_task w\<rparr>"

text \<open>
  \<^verbatim>\<open>
  title: 'Deploy base contracts',
  task: (ctx, task) => {
    ctx.contracts = {}
    const apmBaseContracts = [
      ['@aragon/os', 'APMRegistry'], ['@aragon/os', 'Repo'],
      ['@aragon/os', 'ENSSubdomainRegistrar'], ['@aragon/os', 'ENSFactory'],
      ['@aragon/os', 'Kernel'], ['@aragon/os', 'ACL']
    ]
      .map(([pkg, contractName]) => getContract(pkg, contractName))
      .map((artifact) =>
        deployContract(ctx.web3, ctx.accounts[0], artifact).then((contractAddress) => {
          task.title = `Deployed ${artifact.contractName} to ${contractAddress}`

          ctx.contracts[artifact.contractName] = contractAddress
        })
      )

    return Promise.all(
      apmBaseContracts
    )
  }
  \<close>
  The first \<^verbatim>\<open>map\<close> loads the six artifacts. The second (\<open>deployAll\<close>) starts the six
  deployments one after the other without waiting, and \<^verbatim>\<open>Promise.all\<close> awaits them
  together: one \<open>AwaitAll\<close>. Each address is stored under the artifact's own
  \<^verbatim>\<open>contractName\<close> when its deployment settles; the model takes the outcomes in list
  order and fails with the first rejection, after which the run ends. The task's title is
  display only and left out.
\<close>

definition deployAll :: "world \<Rightarrow> artifact list \<Rightarrow> unit prog" where
  "deployAll w artifacts =
     andThen accounts0 (\<lambda>sender.
     andNext web3Eth (
     andNext (emit (AwaitAll (map (\<lambda>artifact. Deploy artifact sender []) artifacts))) (
       forEachP (\<lambda>artifact.
         andThen (settle (w_deploy w artifact [])) (\<lambda>contractAddress.
           storeContract (contractName artifact) contractAddress)) artifacts)))"

definition deployBaseContracts :: "world \<Rightarrow> unit prog" where
  "deployBaseContracts w =
     andNext (setCtx (\<lambda>c. c\<lparr>contracts := Some Map.empty\<rparr>)) (
     andThen (mapP (\<lambda>(pkg, contract). getContract w pkg contract) apmBaseContracts) (\<lambda>artifacts.
       deployAll w artifacts))"

text \<open>
  \<^verbatim>\<open>
  title: 'Deploy base DAO factory',
  task: (ctx) => {
    return deployContract(
      ctx.web3, ctx.accounts[0], getContract('@aragon/os', 'DAOFactory'), [
        ctx.contracts['Kernel'], ctx.contracts['ACL'], '0x0'
      ]
    ).then((daoFactoryAddress) => {
      ctx.contracts['DAOFactory'] = daoFactoryAddress
    })
  }

  title: 'Deploy APM registry factory',
  task: (ctx, task) => {
    return deployContract(
      ctx.web3, ctx.accounts[0], getContract('@aragon/os', 'APMRegistryFactory'), [
        ctx.contracts['DAOFactory'],
        ctx.contracts['APMRegistry'],
        ctx.contracts['Repo'],
        ctx.contracts['ENSSubdomainRegistrar'],
        '0x0',
        ctx.contracts['ENSFactory']
      ]
    ).then((apmRegistryAddress) => {
      ctx.contracts['APMRegistryFactory'] = apmRegistryAddress
    })
  }
  \<close>
\<close>

definition deployDAOFactory :: "world \<Rightarrow> unit prog" where
  "deployDAOFactory w =
     andThen accounts0 (\<lambda>sender.
     andThen (getContract w ''@aragon/os'' ''DAOFactory'') (\<lambda>artifact.
     andThen (readContract ''Kernel'') (\<lambda>kernel.
     andThen (readContract ''ACL'') (\<lambda>acl.
     andThen (deployContract w sender artifact [kernel, acl, Some ''0x0'']) (\<lambda>daoFactoryAddress.
       storeContract ''DAOFactory'' daoFactoryAddress)))))"

definition deployAPMRegistryFactory :: "world \<Rightarrow> unit prog" where
  "deployAPMRegistryFactory w =
     andThen accounts0 (\<lambda>sender.
     andThen (getContract w ''@aragon/os'' ''APMRegistryFactory'') (\<lambda>artifact.
     andThen (readContract ''DAOFactory'') (\<lambda>daoFactory.
     andThen (readContract ''APMRegistry'') (\<lambda>apmRegistry.
     andThen (readContract ''Repo'') (\<lambda>repo.
     andThen (readContract ''ENSSubdomainRegistrar'') (\<lambda>registrar.
     andThen (readContract ''ENSFactory'') (\<lambda>ensFactory.
     andThen (deployContract w sender artifact
                [daoFactory, apmRegistry, repo, registrar, Some ''0x0'', ensFactory]) (\<lambda>apmRegistryAddress.
       storeContract ''APMRegistryFactory'' apmRegistryAddress))))))))"

text \<open>
  \<^verbatim>\<open>
  title: 'Create APM registry',
  task: (ctx) => {
    const root = ANY_ENTITY
    const contract = new ctx.web3.eth.Contract(
      getContract('@aragon/os', 'APMRegistryFactory').abi,
      ctx.contracts['APMRegistryFactory']
    )

    return contract.methods.newAPM(
      namehash.hash('eth'),
      '0x' + keccak256('aragonpm'),
      root
    ).send({
      from: ctx.accounts[0],
      gas: TX_MIN_GAS
    }).then(({ events }) => {
      ctx.registryAddress = events['DeployAPM'].returnValues.apm

      const registry = new ctx.web3.eth.Contract(
        getContract('@aragon/os', 'APMRegistry').abi,
        ctx.registryAddress
      )
      return registry.methods.registrar().call()
    }).then((registrarAddress) => {
      const registrar = new ctx.web3.eth.Contract(
        getContract('@aragon/os', 'ENSSubdomainRegistrar').abi,
        registrarAddress
      )

      return registrar.methods.ens().call()
    }).then((ensAddress) => {
      ctx.ensAddress = ensAddress

      // Save ENS address to truffle.js so the dev doesn't have to write it manually each time
      writeTruffleConfig({ ensAddress })
    })
  }
  \<close>
\<close>

definition createAPMRegistry :: "world \<Rightarrow> unit prog" where
  "createAPMRegistry w =
     andNext web3Eth (
     andNext (getContract w ''@aragon/os'' ''APMRegistryFactory'') (
     andThen (readContract ''APMRegistryFactory'') (\<lambda>factory.
     andThen accounts0 (\<lambda>sender.
     andThen (await (MethodSend ''newAPM'' factory
                [Namehash ''eth'', Keccak ''aragonpm'', Addr (Some ANY_ENTITY)] sender)
              (w_send w ''newAPM'' [Namehash ''eth'', Keccak ''aragonpm'', Addr (Some ANY_ENTITY)])) (\<lambda>events.
     andThen (eventValue events ''DeployAPM'') (\<lambda>apmAddr.
     andNext (setCtx (\<lambda>c. c\<lparr>registryAddress := Some apmAddr\<rparr>)) (
     andNext web3Eth (
     andNext (getContract w ''@aragon/os'' ''APMRegistry'') (
     andThen (await (MethodCall ''registrar'' (Some apmAddr))
              (w_call w ''registrar'' (Some apmAddr))) (\<lambda>registrarAddress.
     andNext web3Eth (
     andNext (getContract w ''@aragon/os'' ''ENSSubdomainRegistrar'') (
     andThen (await (MethodCall ''ens'' (Some registrarAddress))
              (w_call w ''ens'' (Some registrarAddress))) (\<lambda>ensAddr.
     andNext (setCtx (\<lambda>c. c\<lparr>ensAddress := Some ensAddr\<rparr>)) (
       call (WriteTruffleConfig (Some ensAddr)) (w_writeTruffleConfig w (Some ensAddr))))))))))))))))"

definition deployAPMandENS :: "world \<Rightarrow> unit prog" where
  "deployAPMandENS w =
     runTasks
       [plain ''Deploy base contracts'' (deployBaseContracts w),
        plain ''Deploy base DAO factory'' (deployDAOFactory w),
        plain ''Deploy APM registry factory'' (deployAPMRegistryFactory w),
        plain ''Create APM registry'' (createAPMRegistry w)]"

text \<open>
  \<^verbatim>\<open>
  title: 'Create DAO',
  task: (ctx, task) => {
    const factory = new ctx.web3.eth.Contract(
      getContract('@aragon/os', 'DAOFactory').abi,
      ctx.contracts['DAOFactory']
    )

    return factory.methods.newDAO(
      ctx.accounts[0]
    ).send({
      from: ctx.accounts[0],
      gas: TX_MIN_GAS
    }).then(({ events }) => {
      ctx.daoAddress = events['DeployDAO'].returnValues.dao

      const kernel = new ctx.web3.eth.Contract(
      getContract('@aragon/os', 'Kernel').abi,
        ctx.daoAddress
      )
      return kernel.methods.acl().call()
    }).then((aclAddress) => {
      ctx.aclAddress = aclAddress
    })
  }

  title: 'Set DAO permissions',
  task: (ctx, task) =>
    setPermissions(ctx.web3, ctx.accounts[0], ctx.aclAddress, [
      [ANY_ENTITY, ctx.daoAddress, 'APP_MANAGER_ROLE']
    ])

  title: 'Deploy app code',
  task: (ctx, task) => deployContract(ctx.web3, ctx.accounts[0],
    getContract(cwd, path.basename(module.path, '.sol'))
  ).then((appCodeAddress) => {
    ctx.contracts['AppCode'] = appCodeAddress
  })

  title: 'Publish app',
  task: (ctx) => {
    ctx.apm = APM(ctx.web3, {
      ipfs: { host: 'localhost', port: 5001, protocol: 'http' },
      ensRegistryAddress: ctx.ensAddress
    })
    return publish.task(Object.assign(args, {
      alreadyCompiled: true,
      contract: ctx.contracts['AppCode'],
      provider: 'ipfs',
      files: ['.'],
      ignore: ['node_modules']
    }))
  }
  \<close>
\<close>

definition createDAO :: "world \<Rightarrow> unit prog" where
  "createDAO w =
     andNext web3Eth (
     andNext (getContract w ''@aragon/os'' ''DAOFactory'') (
     andThen (readContract ''DAOFactory'') (\<lambda>factory.
     andThen accounts0 (\<lambda>root.
     andThen accounts0 (\<lambda>sender.
     andThen (await (MethodSend ''newDAO'' factory [Addr root] sender)
              (w_send w ''newDAO'' [Addr root])) (\<lambda>events.
     andThen (eventValue events ''DeployDAO'') (\<lambda>dao.
     andNext (setCtx (\<lambda>c. c\<lparr>daoAddress := Some dao\<rparr>)) (
     andNext web3Eth (
     andNext (getContract w ''@aragon/os'' ''Kernel'') (
     andThen (await (MethodCall ''acl'' (Some dao)) (w_call w ''acl'' (Some dao))) (\<lambda>aclAddr.
       setCtx (\<lambda>c. c\<lparr>aclAddress := Some aclAddr\<rparr>))))))))))))"

definition setDAOPermissions :: "world \<Rightarrow> unit prog" where
  "setDAOPermissions w =
     andThen accounts0 (\<lambda>sender.
     andThen getCtx (\<lambda>ctx.
       setPermissions w sender (aclAddress ctx)
         [(Some ANY_ENTITY, daoAddress ctx, ''APP_MANAGER_ROLE'')]))"

definition deployAppCode :: "world \<Rightarrow> run_args \<Rightarrow> unit prog" where
  "deployAppCode w args =
     andThen accounts0 (\<lambda>sender.
     andThen (getContract w (cwd args) (w_basename w (module_path args) ''.sol'')) (\<lambda>artifact.
     andThen (deployContract w sender artifact []) (\<lambda>appCodeAddress.
       storeContract ''AppCode'' appCodeAddress)))"

definition publishApp :: "world \<Rightarrow> unit prog" where
  "publishApp w =
     andThen getCtx (\<lambda>ctx.
     andNext (emit (Call (ApmNew (ensAddress ctx)))) (
     andNext (setCtx (\<lambda>c. c\<lparr>apm := Some (ensAddress ctx)\<rparr>)) (
     andThen (readContract ''AppCode'') (\<lambda>appCode.
       await (PublishTask appCode) (w_publish w appCode)))))"

text \<open>
  \<^verbatim>\<open>
  title: 'Install app',
  task: () => new TaskList([
    {
      title: 'Deploy proxy',
      task: (ctx) => {
        const kernel = new ctx.web3.eth.Contract(
          getContract('@aragon/os', 'Kernel').abi,
          ctx.daoAddress
        )

        return kernel.methods.newAppInstance(
          namehash.hash(module.appName),
          ctx.contracts['AppCode']
        ).send({
          from: ctx.accounts[0],
          gasLimit: TX_MIN_GAS
        }).then(({ events }) => {
          ctx.appAddress = events['NewAppProxy'].returnValues.proxy
        })
      }
    },
    {
      title: 'Set permissions',
      task: async (ctx, task) => {
        if (!module.roles || module.roles.length === 0) {
          throw new Error('You have no permissions defined in your arapp.json\nThis is required for your app to properly show up.')
          return
        }

        const permissions = module.roles
          .map((role) => [ANY_ENTITY, ctx.appAddress, role.id])

        return setPermissions(
          ctx.web3,
          ctx.accounts[0],
          ctx.aclAddress,
          permissions
        )
      }
    }
  ])
  \<close>
\<close>

definition deployProxy :: "world \<Rightarrow> run_args \<Rightarrow> unit prog" where
  "deployProxy w args =
     andNext web3Eth (
     andNext (getContract w ''@aragon/os'' ''Kernel'') (
     andThen getCtx (\<lambda>ctx.
     andThen (readContract ''AppCode'') (\<lambda>appCode.
     andThen accounts0 (\<lambda>sender.
     andThen (await (MethodSend ''newAppInstance'' (daoAddress ctx)
                [Namehash (module_appName args), Addr appCode] sender)
              (w_send w ''newAppInstance'' [Namehash (module_appName args), Addr appCode])) (\<lambda>events.
     andThen (eventValue events ''NewAppProxy'') (\<lambda>proxy.
       setCtx (\<lambda>c. c\<lparr>appAddress := Some proxy\<rparr>))))))))"

definition noRolesError :: js_error where
  "noRolesError =
     Error ''You have no permissions defined in your arapp.json\<newline>This is required for your app to properly show up.''"

definition setAppPermissions :: "world \<Rightarrow> run_args \<Rightarrow> unit prog" where
  "setAppPermissions w args =
     (case module_roles args of
        None \<Rightarrow> throw noRolesError
      | Some [] \<Rightarrow> throw noRolesError
      | Some roles \<Rightarrow>
          andThen getCtx (\<lambda>ctx.
          andThen accounts0 (\<lambda>sender.
            setPermissions w sender (aclAddress ctx)
               (map (\<lambda>role. (Some ANY_ENTITY, appAddress ctx, role)) roles))))"

definition installApp :: "world \<Rightarrow> run_args \<Rightarrow> unit prog" where
  "installApp w args =
     runTasks
       [plain ''Deploy proxy'' (deployProxy w args),
        plain ''Set permissions'' (setAppPermissions w args)]"

text \<open>
  \<^verbatim>\<open>
  title: 'Open DAO',
  task: (ctx, task) => new TaskList([
    {
      title: 'Download wrapper',
      task: (ctx, task) => {
        const WRAPPER_COMMIT = 'a21100bc14daaea72d79c6eb3ecaaf5877791e09'
        const WRAPPER_PATH = `${os.homedir()}/.aragon/wrapper-${WRAPPER_COMMIT}`
        ctx.wrapperPath = WRAPPER_PATH

        // Make sure we haven't already downloaded the wrapper
        if (fs.existsSync(path.resolve(WRAPPER_PATH))) {
          task.skip('Wrapper already downloaded')
          ctx.wrapperAvailable = true
          return
        }

        // Ensure folder exists
        fs.ensureDirSync(WRAPPER_PATH)

        // Clone wrapper
        return clone(
          'https://github.com/aragon/aragon',
          WRAPPER_PATH,
          { checkout: WRAPPER_COMMIT }
        )
      }
    },
    {
      title: 'Install wrapper dependencies with npm',
      task: () => execa('npm', ['install'], { cwd: ctx.wrapperPath })
        .catch(() => {
          throw new Error('Could not install dependencies')
        }),
      enabled: (ctx) => !ctx.wrapperAvailable
    },
    {
      title: 'Start wrapper',
      task: (ctx, task) => {
        execa(
          'npm',
          ['start'],
          {
            cwd: ctx.wrapperPath,
            env: {
              BROWSER: 'none',
              REACT_APP_IPFS_GATEWAY: 'http://localhost:8080/ipfs',
              REACT_APP_IPFS_RPC: 'http://localhost:5001',
              REACT_APP_DEFAULT_ETH_NODE: `ws://localhost:${port}`,
              REACT_APP_ENS_REGISTRY_ADDRESS: ctx.ensAddress
            }
          }
        ).catch((err) => {
          throw new Error('Could not start wrapper')
        })
      }
    },
    {
      title: 'Open wrapper',
      task: (ctx) => {
        setTimeout(() => opn(`http://localhost:3000/#/${ctx.daoAddress}`), 2500)
      }
    }
  ])
  \<close>
  The task function of \<^verbatim>\<open>Start wrapper\<close> does not return the promise of \<^verbatim>\<open>execa\<close>:
  the subprocess is started and the task is complete at once (\<open>Detached\<close>).
\<close>

definition WRAPPER_COMMIT :: string where
  "WRAPPER_COMMIT = ''a21100bc14daaea72d79c6eb3ecaaf5877791e09''"

definition downloadWrapper :: "world \<Rightarrow> unit prog" where
  "downloadWrapper w =
     (let WRAPPER_PATH = w_homedir w @ ''/.aragon/wrapper-'' @ WRAPPER_COMMIT in
      andNext (setCtx (\<lambda>c. c\<lparr>wrapperPath := Some WRAPPER_PATH\<rparr>)) (
      andNext (emit (Call (FsExistsSync (w_resolve w [WRAPPER_PATH])))) (
        (if w_existsSync w (w_resolve w [WRAPPER_PATH])
         then andNext (emit (Skipped ''Download wrapper'' ''Wrapper already downloaded''))
                (setCtx (\<lambda>c. c\<lparr>wrapperAvailable := Some True\<rparr>))
         else andNext (call (FsEnsureDirSync WRAPPER_PATH) (w_ensureDirSync w WRAPPER_PATH))
                (await (GitClone ''https://github.com/aragon/aragon'' WRAPPER_PATH WRAPPER_COMMIT)
                   (w_clone w WRAPPER_PATH))))))"

definition installWrapperDeps :: "world \<Rightarrow> task" where
  "installWrapperDeps w =
     \<lparr>title = ''Install wrapper dependencies with npm'',
      enabled = (\<lambda>ctx. wrapperAvailable ctx \<noteq> Some True),
      skip = ret None,
      body =
        andThen getCtx (\<lambda>ctx.
          catch (await (Execa ''npm'' [''install''] (wrapperPath ctx) [])
                   (w_execa w ''npm'' [''install'']))
                (\<lambda>_. throw (Error ''Could not install dependencies'')))\<rparr>"

definition startWrapper :: "run_args \<Rightarrow> unit prog" where
  "startWrapper args =
     andThen getCtx (\<lambda>ctx.
       emit (Detached (Execa ''npm'' [''start''] (wrapperPath ctx)
         [(''BROWSER'', Lit ''none''),
          (''REACT_APP_IPFS_GATEWAY'', Lit ''http://localhost:8080/ipfs''),
          (''REACT_APP_IPFS_RPC'', Lit ''http://localhost:5001''),
          (''REACT_APP_DEFAULT_ETH_NODE'', WsPort (port args)),
          (''REACT_APP_ENS_REGISTRY_ADDRESS'', EnvAddr (ensAddress ctx))])))"

definition openWrapper :: "unit prog" where
  "openWrapper =
     andThen getCtx (\<lambda>ctx.
       emit (Timer 2500 (Opn (''http://localhost:3000/#/'' @
         (case daoAddress ctx of None \<Rightarrow> ''undefined'' | Some dao \<Rightarrow> dao)))))"

definition openDAO :: "world \<Rightarrow> run_args \<Rightarrow> unit prog" where
  "openDAO w args =
     runTasks
       [plain ''Download wrapper'' (downloadWrapper w),
        installWrapperDeps w,
        plain ''Start wrapper'' (startWrapper args),
        plain ''Open wrapper'' openWrapper]"

subsection \<open>The handler\<close>

text \<open>
  The ten tasks in the order of the source. After building the list and before running
  it the handler looks for the project's \<^verbatim>\<open>manifest.json\<close>:
  \<^verbatim>\<open>
  const manifestPath = path.resolve(findProjectRoot(), 'manifest.json')
  let manifest
  if (fs.existsSync(manifestPath)) {
    manifest = fs.readJsonSync(manifestPath)
  }

  return tasks.run().then((ctx) => { ... })
  \<close>
  What follows a successful run only reports to the console and is left out. A run starts
  on the empty context and the empty trace.
\<close>

definition tasks :: "world \<Rightarrow> run_args \<Rightarrow> task list" where
  "tasks w args =
     [plain ''Compile contracts'' (compileContracts w),
      plain ''Connect to the provided Ethereum network'' (connectNetwork w args),
      startIPFS w,
      plain ''Deploy APM and ENS'' (deployAPMandENS w),
      plain ''Create DAO'' (createDAO w),
      plain ''Set DAO permissions'' (setDAOPermissions w),
      plain ''Deploy app code'' (deployAppCode w args),
      plain ''Publish app'' (publishApp w),
      plain ''Install app'' (installApp w args),
      plain ''Open DAO'' (openDAO w args)]"

definition readManifest :: "world \<Rightarrow> unit prog" where
  "readManifest w =
     andThen (call FindProjectRoot (w_findProjectRoot w)) (\<lambda>root.
     andNext (emit (Call (FsExistsSync (w_resolve w [root, ''manifest.json''])))) (
       (if w_existsSync w (w_resolve w [root, ''manifest.json''])
        then call (ReadJsonSync (w_resolve w [root, ''manifest.json'']))
               (w_readJsonSync w (w_resolve w [root, ''manifest.json'']))
        else ret ())))"

definition handler :: "world \<Rightarrow> run_args \<Rightarrow> unit prog" where
  "handler w args = andNext (readManifest w) (runTasks (tasks w args))"

definition empty_ctx :: run_ctx where
  "empty_ctx =
     \<lparr>web3 = None, accounts = None, contracts = None, registryAddress = None,
      ensAddress = None, daoAddress = None, aclAddress = None, appAddress = None,
      apm = None, wrapperPath = None, wrapperAvailable = None\<rparr>"

definition start :: run_state where
  "start = \<lparr>cx = empty_ctx, trace = []\<rparr>"

section \<open>Properties: definitions\<close>

subsection \<open>Example worlds\<close>

text \<open>
  A world in which everything succeeds: the configured node is listening, an IPFS daemon
  is running, every artifact carries the name of its file, and the wrapper has not been
  downloaded yet. Two variants: the node cannot be reached, and IPFS is neither running
  nor installed.
\<close>

definition demo_world :: world where
  "demo_world =
     \<lparr>w_findProjectRoot = Inr ''/app'',
      w_readJsonSync = (\<lambda>_. Inr ()),
      w_runTruffle = (\<lambda>_. Inr ()),
      w_Web3 = (\<lambda>_. Inr ()),
      w_isListening = Inr True,
      w_devchain = Inr (),
      w_getAccounts = Inr [''0xb412''],
      w_isIPFSRunning = Inr True,
      w_isIPFSInstalled = Inr True,
      w_startIPFSDaemon = Inr (),
      w_require = (\<lambda>p. Inr \<lparr>contractName =
           (if p = artifactPath ''@aragon/os'' ''APMRegistry'' then ''APMRegistry''
            else if p = artifactPath ''@aragon/os'' ''Repo'' then ''Repo''
            else if p = artifactPath ''@aragon/os'' ''ENSSubdomainRegistrar''
              then ''ENSSubdomainRegistrar''
            else if p = artifactPath ''@aragon/os'' ''ENSFactory'' then ''ENSFactory''
            else if p = artifactPath ''@aragon/os'' ''Kernel'' then ''Kernel''
            else if p = artifactPath ''@aragon/os'' ''ACL'' then ''ACL''
            else if p = artifactPath ''@aragon/os'' ''DAOFactory'' then ''DAOFactory''
            else if p = artifactPath ''@aragon/os'' ''APMRegistryFactory''
              then ''APMRegistryFactory''
            else ''CounterApp''), bytecode = ''0x60''\<rparr>),
      w_deploy = (\<lambda>a _. Inr (''0x'' @ contractName a)),
      w_send = (\<lambda>m _. Inr [''DeployAPM'' \<mapsto> ''0xapm'', ''DeployDAO'' \<mapsto> ''0xdao'',
                             ''NewAppProxy'' \<mapsto> ''0xproxy'']),
      w_call = (\<lambda>m _. Inr (''0x'' @ m)),
      w_publish = (\<lambda>_. Inr ()),
      w_existsSync = (\<lambda>_. False),
      w_ensureDirSync = (\<lambda>_. Inr ()),
      w_clone = (\<lambda>_. Inr ()),
      w_execa = (\<lambda>_ _. Inr ()),
      w_writeTruffleConfig = (\<lambda>_. Inr ()),
      w_homedir = ''/home/dev'',
      w_basename = (\<lambda>p ext. ''CounterApp''),
      w_resolve = join_slash\<rparr>"

definition demo_args :: run_args where
  "demo_args =
     \<lparr>cwd = ''/app'', provider = ''ws://localhost:8545'',
      module_path = ''contracts/CounterApp.sol'', module_appName = ''counter.aragonpm.eth'',
      module_roles = Some [''INCREMENT_ROLE'', ''DECREMENT_ROLE''], port = 8545\<rparr>"

definition offline_world :: world where
  "offline_world = demo_world\<lparr>w_isListening := Inl (Error ''connection not open'')\<rparr>"

definition no_ipfs_world :: world where
  "no_ipfs_world = demo_world\<lparr>w_isIPFSRunning := Inr False, w_isIPFSInstalled := Inr False\<rparr>"

subsection \<open>Weakest preconditions\<close>

text \<open>
  \<open>wp m Q E s\<close>: running \<open>m\<close> from \<open>s\<close> either returns \<open>x\<close> in a state with
  \<open>Q x\<close>, or throws \<open>e\<close> in a state with \<open>E e\<close>. \<open>triple P m Q E\<close> is the same from
  every state with \<open>P\<close>.
\<close>

definition wp :: "'a prog \<Rightarrow> ('a \<Rightarrow> run_state \<Rightarrow> bool) \<Rightarrow> (js_error \<Rightarrow> run_state \<Rightarrow> bool) \<Rightarrow> run_state \<Rightarrow> bool" where
  "wp m Q E s = (case m s of (Inl e, s') \<Rightarrow> E e s' | (Inr x, s') \<Rightarrow> Q x s')"

definition triple :: "(run_state \<Rightarrow> bool) \<Rightarrow> 'a prog \<Rightarrow> ('a \<Rightarrow> run_state \<Rightarrow> bool) \<Rightarrow> (js_error \<Rightarrow> run_state \<Rightarrow> bool) \<Rightarrow> bool" where
  "triple P m Q E = (\<forall>s. P s \<longrightarrow> wp m Q E s)"

subsection \<open>Reads of \<^verbatim>\<open>ctx.contracts\<close>\<close>

text \<open>
  \<open>populated g evs\<close> replays the events \<open>evs\<close> from the contents \<open>g\<close> of the
  deployment context: an assignment \<^verbatim>\<open>ctx.contracts[k] = a\<close> adds to the contents, and a
  read \<^verbatim>\<open>ctx.contracts[k]\<close> is in order when it gave an address, the one that the
  latest earlier assignment to \<open>k\<close> stored. \<open>stored g evs\<close> is the contents after the
  events. \<open>has ks\<close>: the object exists and holds an address under each of the keys
  \<open>ks\<close>. \<open>tracked\<close>: the object holds what the events of the run have stored.

  An artifact is well named when its \<^verbatim>\<open>contractName\<close> is the name of the file it was
  loaded from; this is asked of the six base artifacts, whose addresses are stored under
  the artifact's name and read under the file's. In \<open>misnamed_world\<close> the artifact in
  \<^verbatim>\<open>Kernel.json\<close> carries another name.
\<close>

fun populated :: "(string \<rightharpoonup> address) \<Rightarrow> event list \<Rightarrow> bool" where
  "populated g [] = True"
| "populated g (StoreContract k a # evs) = populated (g(k \<mapsto> a)) evs"
| "populated g (ReadContract k v # evs) = (v \<noteq> None \<and> v = g k \<and> populated g evs)"
| "populated g (ev # evs) = populated g evs"

fun stored :: "(string \<rightharpoonup> address) \<Rightarrow> event list \<Rightarrow> (string \<rightharpoonup> address)" where
  "stored g [] = g"
| "stored g (StoreContract k a # evs) = stored (g(k \<mapsto> a)) evs"
| "stored g (ev # evs) = stored g evs"

definition reads_ok :: "run_state \<Rightarrow> bool" where
  "reads_ok s = populated Map.empty (trace s)"

definition has :: "string list \<Rightarrow> run_state \<Rightarrow> bool" where
  "has ks s =
     (case contracts (cx s) of
        None \<Rightarrow> False
      | Some m \<Rightarrow> list_all (\<lambda>k. m k \<noteq> None) ks)"

definition tracked :: "run_state \<Rightarrow> bool" where
  "tracked s =
     (stored Map.empty (trace s) =
        (case contracts (cx s) of None \<Rightarrow> Map.empty | Some m \<Rightarrow> m))"

definition fresh :: "run_state \<Rightarrow> bool" where
  "fresh s = (reads_ok s \<and> contracts (cx s) = None \<and> tracked s)"

definition ctx_inv :: "string list \<Rightarrow> run_state \<Rightarrow> bool" where
  "ctx_inv ks s = (reads_ok s \<and> has ks s \<and> tracked s)"

definition misnamed_world :: world where
  "misnamed_world =
     demo_world\<lparr>w_require := (\<lambda>p.
       if p = artifactPath ''@aragon/os'' ''Kernel''
       then Inr \<lparr>contractName = ''KernelStorage'', bytecode = ''0x60''\<rparr>
       else w_require demo_world p)\<rparr>"

definition well_named :: "world \<Rightarrow> bool" where
  "well_named w =
     list_all (\<lambda>(pkg, c).
       case w_require w (artifactPath pkg c) of
         Inl _ \<Rightarrow> True
       | Inr art \<Rightarrow> contractName art = c) apmBaseContracts"

subsection \<open>Concurrency and writes of the configuration file\<close>

text \<open>
  \<open>strictly_sequential\<close> is what a run looks like when nothing but a delayed opening of
  the browser is left unawaited and no two operations are pending together: no group of
  two or more operations awaited jointly, no detached operation. \<open>concurrency_ok\<close> is
  what the handler does: the groups awaited jointly are deployments or
  \<^verbatim>\<open>createPermission\<close> transactions, the only detached operation is \<^verbatim>\<open>npm start\<close>,
  which is never awaited, and a timer only opens the browser. \<open>joint_deploys n\<close> and
  \<open>joint_permissions n\<close> are the groups of \<open>n\<close> deployments and of \<open>n\<close>
  \<^verbatim>\<open>createPermission\<close> transactions awaited jointly, \<open>detached_npm_start\<close> is the
  launch of \<^verbatim>\<open>npm start\<close> whose promise is dropped, \<open>delayed_opn\<close> is a timer that
  opens the browser, and \<open>occurs P\<close> says that the trace has an event with \<open>P\<close>.
\<close>

fun is_deploy :: "op \<Rightarrow> bool" where
  "is_deploy (Deploy art sender args) = True"
| "is_deploy _ = False"

fun is_createPermission :: "op \<Rightarrow> bool" where
  "is_createPermission (MethodSend name addr args sender) = (name = ''createPermission'')"
| "is_createPermission _ = False"

fun is_npm_start :: "op \<Rightarrow> bool" where
  "is_npm_start (Execa cmd args dir env) = (cmd = ''npm'' \<and> args = [''start''])"
| "is_npm_start _ = False"

fun is_opn :: "op \<Rightarrow> bool" where
  "is_opn (Opn url) = True"
| "is_opn _ = False"

fun strictly_sequential :: "event \<Rightarrow> bool" where
  "strictly_sequential (AwaitAll ops) = (length ops \<le> 1)"
| "strictly_sequential (Detached op) = False"
| "strictly_sequential (Timer ms op) = is_opn op"
| "strictly_sequential _ = True"

fun concurrency_ok :: "event \<Rightarrow> bool" where
  "concurrency_ok (AwaitAll ops) = (list_all is_deploy ops \<or> list_all is_createPermission ops)"
| "concurrency_ok (Detached op) = is_npm_start op"
| "concurrency_ok (Timer ms op) = is_opn op"
| "concurrency_ok (Await op) = (\<not> is_npm_start op)"
| "concurrency_ok _ = True"

fun joint_deploys :: "nat \<Rightarrow> event \<Rightarrow> bool" where
  "joint_deploys n (AwaitAll ops) = (length ops = n \<and> list_all is_deploy ops)"
| "joint_deploys n _ = False"

fun joint_permissions :: "nat \<Rightarrow> event \<Rightarrow> bool" where
  "joint_permissions n (AwaitAll ops) = (length ops = n \<and> list_all is_createPermission ops)"
| "joint_permissions n _ = False"

fun detached_npm_start :: "event \<Rightarrow> bool" where
  "detached_npm_start (Detached op) = is_npm_start op"
| "detached_npm_start _ = False"

fun delayed_opn :: "event \<Rightarrow> bool" where
  "delayed_opn (Timer ms op) = is_opn op"
| "delayed_opn _ = False"

definition occurs :: "(event \<Rightarrow> bool) \<Rightarrow> run_state \<Rightarrow> bool" where
  "occurs P s = list_ex P (trace s)"

fun is_config_write :: "event \<Rightarrow> bool" where
  "is_config_write (Call (WriteTruffleConfig a)) = True"
| "is_config_write _ = False"

text \<open>
  \<open>extends s0 s\<close>: from \<open>s0\<close> to \<open>s\<close> the trace grew by events that are
  \<open>concurrency_ok\<close> and do not write the configuration file, and \<^verbatim>\<open>ctx.ensAddress\<close> did
  not change.
\<close>

definition quiet :: "event \<Rightarrow> bool" where
  "quiet ev = (concurrency_ok ev \<and> \<not> is_config_write ev)"

definition extends :: "run_state \<Rightarrow> run_state \<Rightarrow> bool" where
  "extends s0 s =
     (ensAddress (cx s) = ensAddress (cx s0) \<and>
      (\<exists>evs. trace s = trace s0 @ evs \<and> list_all quiet evs))"

definition shaped :: "run_state \<Rightarrow> bool" where
  "shaped s = list_all concurrency_ok (trace s)"

definition unwritten :: "run_state \<Rightarrow> bool" where
  "unwritten s = (filter is_config_write (trace s) = [])"

definition written :: "run_state \<Rightarrow> bool" where
  "written s =
     (ensAddress (cx s) \<noteq> None \<and>
      filter is_config_write (trace s) = [Call (WriteTruffleConfig (ensAddress (cx s)))])"

definition at_most_once :: "run_state \<Rightarrow> bool" where
  "at_most_once s = (length (filter is_config_write (trace s)) \<le> 1)"

section \<open>Properties of \<^verbatim>\<open>ensureWeb3\<close>\<close>

text \<open>
  Claim C6. \<^verbatim>\<open>ensureWeb3\<close> reads \<^verbatim>\<open>ctx.web3\<close>, and no scope around it binds
  \<^verbatim>\<open>ctx\<close>. So whatever the network argument, whatever the constructor does and
  whatever the node would answer, the call never returns a web3 instance: it throws,
  and the error is always \<^verbatim>\<open>Please execute aragon run before running this\<close> (a throw
  of the constructor is inside the same \<^verbatim>\<open>try\<close> and is replaced by it too).
\<close>

theorem ensureWeb3_always_throws:
  "ensureWeb3 Web3 isListening network =
     Inl (Error ''Please execute aragon run before running this'')"
  by (simp add: ensureWeb3_def ensureWeb3_try_def lookupIdentifier_def ensureWeb3_scope_def
      split: sum.split)

section \<open>Properties of \<^verbatim>\<open>fetchClient\<close>\<close>

text \<open>
  Claim C10. Every call of \<^verbatim>\<open>fetchClient\<close> sets \<^verbatim>\<open>ctx.clientFetch\<close> and
  \<^verbatim>\<open>ctx.clientAvailable\<close> to true and \<^verbatim>\<open>ctx.clientPath\<close> to
  \<^verbatim>\<open><home>/.aragon/client-<version>\<close>, whether it then skips, copies or throws. When the
  client's directory already exists the task is skipped with
  \<^verbatim>\<open>Client already fetched\<close>: neither \<^verbatim>\<open>ensureDirSync\<close> nor \<^verbatim>\<open>copy\<close> is called, the
  file system is the one before the call, and nothing is thrown.
\<close>

theorem fetchClient_ctx_and_cache:
  "clientFetch (ctx_after (fetchClient libs fs ctx v)) = Some True \<and>
   clientAvailable (ctx_after (fetchClient libs fs ctx v)) = Some True \<and>
   clientPath (ctx_after (fetchClient libs fs ctx v)) =
     Some (homedir libs @ ''/.aragon/client-'' @ v) \<and>
   (existsSync libs fs (path_resolve libs [homedir libs @ ''/.aragon/client-'' @ v]) \<longrightarrow>
      skipped (fetchClient libs fs ctx v) = Some ''Client already fetched'' \<and>
      fs_calls (fetchClient libs fs ctx v) = [] \<and>
      fs_after (fetchClient libs fs ctx v) = fs \<and>
      thrown (fetchClient libs fs ctx v) = None)"
  by (simp add: fetchClient_def Let_def split: sum.split)

text \<open>
  The theorem at a file system that holds the client's directory for version 0.6.0, and
  the whole result of the call there.
\<close>

theorem fetchClient_cached_demo:
  "existsSync list_libs [''/home/dev/.aragon/client-0.6.0'']
     (path_resolve list_libs [homedir list_libs @ ''/.aragon/client-'' @ ''0.6.0'']) \<and>
   fetchClient list_libs [''/home/dev/.aragon/client-0.6.0''] empty_client_ctx ''0.6.0'' =
     \<lparr>ctx_after = \<lparr>clientFetch = Some True, clientAvailable = Some True,
                    clientPath = Some ''/home/dev/.aragon/client-0.6.0''\<rparr>,
      fs_after = [''/home/dev/.aragon/client-0.6.0''], fs_calls = [],
      skipped = Some ''Client already fetched'', thrown = None\<rparr>"
  using fetchClient_ctx_and_cache
          [of list_libs "[''/home/dev/.aragon/client-0.6.0'']" empty_client_ctx "''0.6.0''"]
  by (simp add: list_libs_def empty_client_ctx_def fetchClient_def Let_def)

text \<open>When the directory is missing the build directory is made and the files are copied.\<close>

lemma fetchClient_fresh_demo:
  "fs_calls (fetchClient list_libs [] empty_client_ctx ''0.6.0'') =
     [EnsureDirSync ''/home/dev/.aragon/client-0.6.0/build'',
      Copy ''/usr/lib/node_modules/@aragon/aragen/index.js/../ipfs-cache/@aragon/aragon''
           ''/home/dev/.aragon/client-0.6.0/build'']"
  by (simp add: list_libs_def empty_client_ctx_def fetchClient_def Let_def)


section \<open>Properties of \<^verbatim>\<open>getLocalBinary\<close>\<close>

lemma getLocalBinary_found:
  "ex (binaryPath X dir) \<Longrightarrow>
   getLocalBinary ex X dir = (Some (binaryPath X dir), [binaryPath X dir])"
  by (simp add: getLocalBinary.simps)

lemma getLocalBinary_root:
  "\<not> ex (binaryPath X []) \<Longrightarrow> getLocalBinary ex X [] = (None, [binaryPath X []])"
  by (simp add: getLocalBinary.simps)

lemma getLocalBinary_up:
  "\<not> ex (binaryPath X dir) \<Longrightarrow> dir \<noteq> [] \<Longrightarrow>
   getLocalBinary ex X dir =
     (case getLocalBinary ex X (parentLevel dir) of
        (found, checked) \<Rightarrow> (found, binaryPath X dir # checked))"
  by (subst getLocalBinary.simps) simp

lemma parentLevel_scoped: "scoped s \<Longrightarrow> parentLevel (G @ [s, n]) = G"
  by (simp add: parentLevel_def Let_def butlast_append)

lemma parentLevel_plain:
  "\<not> (butlast dir \<noteq> [] \<and> scoped (last (butlast dir))) \<Longrightarrow> parentLevel dir = butlast dir"
  by (auto simp add: parentLevel_def Let_def)

lemma binaryPath_inject [simp]: "binaryPath X A = binaryPath X B \<longleftrightarrow> A = B"
  by (simp add: binaryPath_def)

lemma checked_shape:
  "case getLocalBinary ex X dir of
     (found, checked) \<Rightarrow>
       checked \<noteq> [] \<and> hd checked = binaryPath X dir \<and>
       list_all (\<lambda>p. \<not> ex p) (butlast checked) \<and>
       (case found of
          Some p \<Rightarrow> p = last checked \<and> ex p
        | None \<Rightarrow> \<not> ex (last checked) \<and> last checked = binaryPath X [])"
proof (induction ex X dir rule: getLocalBinary.induct)
  case (1 ex X dir)
  show ?case
  proof (cases "ex (binaryPath X dir)")
    case True
    then show ?thesis by (simp add: getLocalBinary_found)
  next
    case False
    show ?thesis
    proof (cases "dir = []")
      case True
      with False show ?thesis by (simp add: getLocalBinary_root)
    next
      case ne: False
      from "1.IH" [OF False ne] False ne show ?thesis
        by (auto simp add: getLocalBinary_up split: prod.splits option.splits)
    qed
  qed
qed

lemma length_checked: "length (snd (getLocalBinary ex X dir)) \<le> Suc (length dir)"
proof (induction ex X dir rule: getLocalBinary.induct)
  case (1 ex X dir)
  show ?case
  proof (cases "ex (binaryPath X dir)")
    case True
    then show ?thesis by (simp add: getLocalBinary_found)
  next
    case False
    show ?thesis
    proof (cases "dir = []")
      case True
      with False show ?thesis by (simp add: getLocalBinary_root)
    next
      case ne: False
      have "length (parentLevel dir) < length dir"
        using ne by (auto simp add: parentLevel_def Let_def)
      with "1.IH" [OF False ne] False ne show ?thesis
        by (auto simp add: getLocalBinary_up split: prod.splits)
    qed
  qed
qed

lemma in_ancestors: "A \<in> set (ancestors dir) \<longleftrightarrow> (\<exists>k. A = take k dir)"
proof
  assume "A \<in> set (ancestors dir)"
  then show "\<exists>k. A = take k dir"
    by (auto simp add: ancestors_def intro: exI [of _ "length dir"])
next
  assume "\<exists>k. A = take k dir"
  then obtain k where k: "A = take k dir" ..
  have m: "min k (length dir) \<in> set (rev [0..<Suc (length dir)])"
    by (simp del: upt_Suc add: less_Suc_eq_le)
  have e: "A = take (min k (length dir)) dir"
    using k by (cases "k \<le> length dir") (simp_all add: min_def)
  show "A \<in> set (ancestors dir)"
    unfolding ancestors_def set_map
    by (rule image_eqI [where f = "\<lambda>k. take k dir" and x = "min k (length dir)"])
       (rule e, rule m)
qed

lemma self_ancestor: "dir \<in> set (ancestors dir)"
  unfolding in_ancestors by (rule exI [of _ "length dir"]) simp

lemma ancestors_parentLevel: "set (ancestors (parentLevel dir)) \<subseteq> set (ancestors dir)"
proof
  fix A assume "A \<in> set (ancestors (parentLevel dir))"
  then obtain k where k: "A = take k (parentLevel dir)"
    unfolding in_ancestors by blast
  have "\<exists>j. parentLevel dir = take j dir"
    by (simp add: parentLevel_def Let_def butlast_conv_take) blast
  then obtain j where "parentLevel dir = take j dir" ..
  with k have "A = take (min k j) dir" by (simp add: min.commute)
  then show "A \<in> set (ancestors dir)"
    unfolding in_ancestors by blast
qed

lemma none_found:
  "list_all (\<lambda>A. \<not> ex (binaryPath X A)) (ancestors dir) \<Longrightarrow>
   fst (getLocalBinary ex X dir) = None"
proof (induction ex X dir rule: getLocalBinary.induct)
  case (1 ex X dir)
  from "1.prems" self_ancestor [of dir] have False: "\<not> ex (binaryPath X dir)"
    by (auto simp add: list_all_iff)
  show ?case
  proof (cases "dir = []")
    case True
    with False show ?thesis by (simp add: getLocalBinary_root)
  next
    case ne: False
    from "1.prems" ancestors_parentLevel [of dir]
    have "list_all (\<lambda>A. \<not> ex (binaryPath X A)) (ancestors (parentLevel dir))"
      by (auto simp add: list_all_iff)
    from "1.IH" [OF False ne this] False ne show ?thesis
      by (auto simp add: getLocalBinary_up split: prod.splits)
  qed
qed








section \<open>Properties of the \<^verbatim>\<open>run\<close> handler\<close>

subsection \<open>Rules for weakest preconditions\<close>

lemma wp_ret [simp]: "wp (ret x) Q E = Q x"
  by (rule ext) (simp add: wp_def ret_def)

lemma wp_throw [simp]: "wp (throw e) Q E = E e"
  by (rule ext) (simp add: wp_def throw_def)

lemma wp_andThen [simp]: "wp (andThen m k) Q E = wp m (\<lambda>x. wp (k x) Q E) E"
  by (rule ext) (simp add: wp_def andThen_def split: prod.split sum.split)

lemma wp_andNext [simp]: "wp (andNext m k) Q E = wp m (\<lambda>_. wp k Q E) E"
  by (simp add: andNext_def)

lemma wp_catch [simp]: "wp (catch m h) Q E = wp m Q (\<lambda>e. wp (h e) Q E)"
  by (rule ext) (simp add: wp_def catch_def split: prod.split sum.split)

lemma wp_settle [simp]: "wp (settle r) Q E = (case r of Inl e \<Rightarrow> E e | Inr x \<Rightarrow> Q x)"
  by (rule ext) (simp add: wp_def settle_def split: sum.split)

lemma wp_emit [simp]: "wp (emit ev) Q E = (\<lambda>s. Q () (s\<lparr>trace := trace s @ [ev]\<rparr>))"
  by (rule ext) (simp add: wp_def emit_def)

lemma wp_getCtx [simp]: "wp getCtx Q E = (\<lambda>s. Q (cx s) s)"
  by (rule ext) (simp add: wp_def getCtx_def)

lemma wp_setCtx [simp]: "wp (setCtx f) Q E = (\<lambda>s. Q () (s\<lparr>cx := f (cx s)\<rparr>))"
  by (rule ext) (simp add: wp_def setCtx_def)

lemma wp_await [simp]:
  "wp (await op r) Q E =
     (\<lambda>s. case r of
             Inl e \<Rightarrow> E e (s\<lparr>trace := trace s @ [Await op]\<rparr>)
           | Inr x \<Rightarrow> Q x (s\<lparr>trace := trace s @ [Await op]\<rparr>))"
  by (rule ext) (simp add: await_def split: sum.split)

lemma wp_call [simp]:
  "wp (call op r) Q E =
     (\<lambda>s. case r of
             Inl e \<Rightarrow> E e (s\<lparr>trace := trace s @ [Call op]\<rparr>)
           | Inr x \<Rightarrow> Q x (s\<lparr>trace := trace s @ [Call op]\<rparr>))"
  by (rule ext) (simp add: call_def split: sum.split)

lemma wp_mono:
  "wp m Q' E' s \<Longrightarrow> (\<And>x s'. Q' x s' \<Longrightarrow> Q x s') \<Longrightarrow> (\<And>e s'. E' e s' \<Longrightarrow> E e s') \<Longrightarrow>
   wp m Q E s"
  by (auto simp: wp_def split: prod.splits sum.splits)

lemma wp_result: "wp m (\<lambda>_. P) (\<lambda>_. P) s \<Longrightarrow> P (snd (m s))"
  by (auto simp: wp_def split: prod.splits sum.splits)

lemma wp_outcome:
  "wp m (\<lambda>_. Q) (\<lambda>_. E) s \<Longrightarrow>
   (case fst (m s) of Inl e \<Rightarrow> E (snd (m s)) | Inr x \<Rightarrow> Q (snd (m s)))"
  by (auto simp: wp_def split: prod.splits sum.splits)

lemma wp_runTask_plain [simp]: "wp (runTask (plain t b)) Q E = wp b Q E"
  by (rule ext) (simp add: runTask_def plain_def)

lemma wp_web3Eth [simp]:
  "wp web3Eth Q E =
     (\<lambda>s. case web3 (cx s) of
             None \<Rightarrow> E (TypeError ''Cannot read property eth of undefined'') s
           | Some p \<Rightarrow> Q p s)"
  by (rule ext) (simp add: web3Eth_def split: option.split)

lemma wp_accounts0 [simp]:
  "wp accounts0 Q E =
     (\<lambda>s. case accounts (cx s) of
             None \<Rightarrow> E (TypeError ''Cannot read property 0 of undefined'') s
           | Some xs \<Rightarrow> Q (case xs of [] \<Rightarrow> None | a # _ \<Rightarrow> Some a) s)"
  by (rule ext) (simp add: accounts0_def split: option.split list.split)

lemma wp_getContract [simp]:
  "wp (getContract w pkg c) Q E =
     (case w_require w (artifactPath pkg c) of Inl e \<Rightarrow> E e | Inr a \<Rightarrow> Q a)"
  by (simp add: getContract_def)

lemma wp_readContract [simp]:
  "wp (readContract k) Q E =
     (\<lambda>s. case contracts (cx s) of
             None \<Rightarrow> E (TypeError (''Cannot read property '' @ k @ '' of undefined''))
                       (s\<lparr>trace := trace s @ [ReadContract k None]\<rparr>)
           | Some m \<Rightarrow> Q (m k) (s\<lparr>trace := trace s @ [ReadContract k (m k)]\<rparr>))"
  by (rule ext) (simp add: readContract_def split: option.split)

lemma wp_storeContract [simp]:
  "wp (storeContract k a) Q E =
     (\<lambda>s. case contracts (cx s) of
             None \<Rightarrow> E (TypeError (''Cannot set property '' @ k @ '' of undefined'')) s
           | Some m \<Rightarrow>
               Q () (s\<lparr>cx := (cx s)\<lparr>contracts := Some (m(k \<mapsto> a))\<rparr>,
                       trace := trace s @ [StoreContract k a]\<rparr>))"
  by (rule ext) (simp add: storeContract_def split: option.split)

lemma wp_eventValue [simp]:
  "wp (eventValue events name) Q E =
     (case events name of
        None \<Rightarrow> E (TypeError ''Cannot read property returnValues of undefined'')
      | Some a \<Rightarrow> Q a)"
  by (simp add: eventValue_def split: option.split)

lemma wp_deployContract [simp]:
  "wp (deployContract w sender art args) Q E =
     (\<lambda>s. case web3 (cx s) of
             None \<Rightarrow> E (TypeError ''Cannot read property eth of undefined'') s
           | Some _ \<Rightarrow>
               (case w_deploy w art args of
                  Inl e \<Rightarrow> E e (s\<lparr>trace := trace s @ [Await (Deploy art sender args)]\<rparr>)
                | Inr a \<Rightarrow> Q a (s\<lparr>trace := trace s @ [Await (Deploy art sender args)]\<rparr>)))"
  by (rule ext) (simp add: deployContract_def split: option.split sum.split)

lemma tripleI: "(\<And>s. P s \<Longrightarrow> wp m Q E s) \<Longrightarrow> triple P m Q E"
  by (simp add: triple_def)

lemma tripleD: "triple P m Q E \<Longrightarrow> P s \<Longrightarrow> wp m Q E s"
  by (simp add: triple_def)

lemma triple_andNext:
  assumes "triple P m (\<lambda>_. R) E" and "triple R k Q E"
  shows "triple P (andNext m k) Q E"
proof (rule tripleI)
  fix s assume "P s"
  with assms(1) have "wp m (\<lambda>_. R) E s" by (rule tripleD)
  then have "wp m (\<lambda>_. wp k Q E) E s"
    by (rule wp_mono) (use assms(2) in \<open>simp_all add: triple_def\<close>)
  then show "wp (andNext m k) Q E s" by simp
qed

lemma triple_plain: "triple P b Q E \<Longrightarrow> triple P (runTask (plain t b)) Q E"
  by (simp add: triple_def)

lemma triple_tasks_Cons:
  "triple P (runTask t) (\<lambda>_. R) E \<Longrightarrow> triple R (runTasks ts) Q E \<Longrightarrow>
   triple P (runTasks (t # ts)) Q E"
  by (simp add: triple_andNext)

lemma triple_tasks_Nil: "triple P (runTasks []) (\<lambda>_. P) E"
  by (simp add: triple_def)

text \<open>
  The handler runs its pieces in the order of the task list: a property that each piece
  hands on to the next holds of the whole run.
\<close>

lemma handler_triple:
  assumes "triple P0 (readManifest w) (\<lambda>_. P1) E"
      and "triple P1 (compileContracts w) (\<lambda>_. P2) E"
      and "triple P2 (connectNetwork w args) (\<lambda>_. P3) E"
      and "triple P3 (runTask (startIPFS w)) (\<lambda>_. P4) E"
      and "triple P4 (deployBaseContracts w) (\<lambda>_. P5) E"
      and "triple P5 (deployDAOFactory w) (\<lambda>_. P6) E"
      and "triple P6 (deployAPMRegistryFactory w) (\<lambda>_. P7) E"
      and "triple P7 (createAPMRegistry w) (\<lambda>_. P8) E"
      and "triple P8 (createDAO w) (\<lambda>_. P9) E"
      and "triple P9 (setDAOPermissions w) (\<lambda>_. P10) E"
      and "triple P10 (deployAppCode w args) (\<lambda>_. P11) E"
      and "triple P11 (publishApp w) (\<lambda>_. P12) E"
      and "triple P12 (deployProxy w args) (\<lambda>_. P13) E"
      and "triple P13 (setAppPermissions w args) (\<lambda>_. P14) E"
      and "triple P14 (downloadWrapper w) (\<lambda>_. P15) E"
      and "triple P15 (runTask (installWrapperDeps w)) (\<lambda>_. P16) E"
      and "triple P16 (startWrapper args) (\<lambda>_. P17) E"
      and "triple P17 openWrapper (\<lambda>_. P18) E"
  shows "triple P0 (handler w args) (\<lambda>_. P18) E"
proof -
  note c = triple_tasks_Cons and p = triple_plain
  have apm: "triple P4 (deployAPMandENS w) (\<lambda>_. P8) E"
    unfolding deployAPMandENS_def
    by (rule c [OF p [OF assms(5)]], rule c [OF p [OF assms(6)]],
        rule c [OF p [OF assms(7)]], rule c [OF p [OF assms(8)]], rule triple_tasks_Nil)
  have app: "triple P12 (installApp w args) (\<lambda>_. P14) E"
    unfolding installApp_def
    by (rule c [OF p [OF assms(13)]], rule c [OF p [OF assms(14)]], rule triple_tasks_Nil)
  have dao: "triple P14 (openDAO w args) (\<lambda>_. P18) E"
    unfolding openDAO_def
    by (rule c [OF p [OF assms(15)]], rule c [OF assms(16)],
        rule c [OF p [OF assms(17)]], rule c [OF p [OF assms(18)]], rule triple_tasks_Nil)
  have "triple P1 (runTasks (tasks w args)) (\<lambda>_. P18) E"
    unfolding tasks_def
    by (rule c [OF p [OF assms(2)]], rule c [OF p [OF assms(3)]], rule c [OF assms(4)],
        rule c [OF p [OF apm]], rule c [OF p [OF assms(9)]], rule c [OF p [OF assms(10)]],
        rule c [OF p [OF assms(11)]], rule c [OF p [OF assms(12)]], rule c [OF p [OF app]],
        rule c [OF p [OF dao]], rule triple_tasks_Nil)
  with assms(1) show ?thesis
    unfolding handler_def by (rule triple_andNext)
qed

subsection \<open>The loops\<close>

lemma wp_mapP_getContract:
  assumes "\<And>e. E e s"
      and "\<And>arts. list_all2 (\<lambda>(pkg, c) art. w_require w (artifactPath pkg c) = Inr art) ps arts
             \<Longrightarrow> Q arts s"
  shows "wp (mapP (\<lambda>(pkg, c). getContract w pkg c) ps) Q E s"
  using assms(2)
proof (induction ps arbitrary: Q)
  case Nil
  then show ?case by simp
next
  case (Cons p ps)
  obtain pkg c where p: "p = (pkg, c)" by (cases p)
  show ?case
  proof (cases "w_require w (artifactPath pkg c)")
    case (Inl e)
    then show ?thesis by (simp add: p assms(1))
  next
    case (Inr art)
    have "wp (mapP (\<lambda>(pkg, c). getContract w pkg c) ps) (\<lambda>ys. Q (art # ys)) E s"
      by (rule Cons.IH) (rule Cons.prems, simp add: p Inr)
    with Inr show ?thesis by (simp add: p)
  qed
qed

lemma wp_forEach_send:
  assumes "\<And>e. E e s" and "Q () s"
  shows "wp (forEachP (\<lambda>(who, wher, what).
           andNext (settle (w_send w ''createPermission''
                      [Addr who, Addr wher, Keccak what, Addr who])) (ret ())) perms) Q E s"
proof (induction perms)
  case Nil
  show ?case by (simp add: assms(2))
next
  case (Cons p perms)
  then show ?case
    by (cases p) (simp add: assms(1) split: sum.split)
qed

lemma wp_setPermissions:
  assumes "\<And>e. E e s"
      and "\<And>e. E e (s\<lparr>trace := trace s @ [AwaitAll (map (\<lambda>(who, wher, what).
                MethodSend ''createPermission'' aclAddr
                  [Addr who, Addr wher, Keccak what, Addr who] sender) perms)]\<rparr>)"
      and "Q () (s\<lparr>trace := trace s @ [AwaitAll (map (\<lambda>(who, wher, what).
                MethodSend ''createPermission'' aclAddr
                  [Addr who, Addr wher, Keccak what, Addr who] sender) perms)]\<rparr>)"
  shows "wp (setPermissions w sender aclAddr perms) Q E s"
proof -
  let ?s1 = "s\<lparr>trace := trace s @ [AwaitAll (map (\<lambda>(who, wher, what).
                MethodSend ''createPermission'' aclAddr
                  [Addr who, Addr wher, Keccak what, Addr who] sender) perms)]\<rparr>"
  have "wp (forEachP (\<lambda>(who, wher, what).
           andNext (settle (w_send w ''createPermission''
                      [Addr who, Addr wher, Keccak what, Addr who])) (ret ())) perms) Q E ?s1"
    by (rule wp_forEach_send) (rule assms(2), rule assms(3))
  then show ?thesis
    unfolding setPermissions_def
    by (simp add: assms(1) split: option.split sum.split)
qed

subsection \<open>Every read of \<^verbatim>\<open>ctx.contracts\<close> finds the address stored before\<close>

lemma populated_append [simp]:
  "populated g (xs @ ys) = (populated g xs \<and> populated (stored g xs) ys)"
proof (induction xs arbitrary: g)
  case Nil
  show ?case by simp
next
  case (Cons ev xs)
  then show ?case by (cases ev) (simp_all add: fun_upd_def)
qed

lemma stored_append [simp]: "stored g (xs @ ys) = stored (stored g xs) ys"
proof (induction xs arbitrary: g)
  case Nil
  show ?case by simp
next
  case (Cons ev xs)
  then show ?case by (cases ev) (simp_all add: fun_upd_def)
qed

lemma has_dom: "contracts (cx s) = Some m \<Longrightarrow> set ks \<subseteq> dom m \<Longrightarrow> has ks s"
  by (auto simp: has_def list_all_iff)

lemma names_of_artifacts:
  assumes "list_all2 (\<lambda>(pkg, c) art. w_require w (artifactPath pkg c) = Inr art) ps arts"
      and "list_all (\<lambda>(pkg, c).
             case w_require w (artifactPath pkg c) of
               Inl _ \<Rightarrow> True | Inr art \<Rightarrow> contractName art = c) ps"
  shows "map contractName arts = map snd ps"
  using assms
  by (induction ps arts rule: list_all2_induct) auto

lemma reads_deploy_each:
  assumes "reads_ok s" and "contracts (cx s) = Some m" and "tracked s"
  shows "wp (forEachP (\<lambda>artifact.
           andThen (settle (w_deploy w artifact [])) (\<lambda>contractAddress.
             storeContract (contractName artifact) contractAddress)) arts)
        (\<lambda>_ s'. reads_ok s' \<and> tracked s' \<and>
           (\<exists>m'. contracts (cx s') = Some m' \<and> dom m' = dom m \<union> set (map contractName arts)))
        (\<lambda>_. reads_ok) s"
  using assms
proof (induction arts arbitrary: s m)
  case Nil
  then show ?case by simp
next
  case (Cons a arts)
  show ?case
  proof (cases "w_deploy w a []")
    case (Inl e)
    with Cons.prems show ?thesis by simp
  next
    case (Inr addr)
    let ?s1 = "s\<lparr>cx := (cx s)\<lparr>contracts := Some (m(contractName a \<mapsto> addr))\<rparr>,
                 trace := trace s @ [StoreContract (contractName a) addr]\<rparr>"
    have r: "reads_ok ?s1" using Cons.prems by (simp add: reads_ok_def)
    have c: "contracts (cx ?s1) = Some (m(contractName a \<mapsto> addr))" by simp
    have t: "tracked ?s1" using Cons.prems by (simp add: tracked_def)
    have "wp (forEachP (\<lambda>artifact.
             andThen (settle (w_deploy w artifact [])) (\<lambda>contractAddress.
               storeContract (contractName artifact) contractAddress)) arts)
          (\<lambda>_ s'. reads_ok s' \<and> tracked s' \<and>
             (\<exists>m'. contracts (cx s') = Some m' \<and>
                dom m' = dom m \<union> set (map contractName (a # arts))))
          (\<lambda>_. reads_ok) ?s1"
      by (rule wp_mono [OF Cons.IH [OF r c t]]) auto
    with Inr Cons.prems show ?thesis by simp
  qed
qed

lemma reads_deployAll:
  assumes "reads_ok s" and "contracts (cx s) = Some Map.empty" and "tracked s"
  shows "wp (deployAll w arts) (\<lambda>_. ctx_inv (map contractName arts)) (\<lambda>_. reads_ok) s"
proof -
  { fix sender :: "address option"
    let ?s1 = "s\<lparr>trace := trace s @
                 [AwaitAll (map (\<lambda>artifact. Deploy artifact sender []) arts)]\<rparr>"
    have r1: "reads_ok ?s1" using assms(1) by (simp add: reads_ok_def)
    have c1: "contracts (cx ?s1) = Some Map.empty" using assms(2) by simp
    have t1: "tracked ?s1" using assms(2,3) by (simp add: tracked_def)
    have "wp (forEachP (\<lambda>artifact.
                 andThen (settle (w_deploy w artifact [])) (\<lambda>contractAddress.
                   storeContract (contractName artifact) contractAddress)) arts)
            (\<lambda>_. ctx_inv (map contractName arts)) (\<lambda>_. reads_ok) ?s1"
      by (rule wp_mono [OF reads_deploy_each [OF r1 c1 t1]])
         (auto simp: ctx_inv_def intro!: has_dom)
  }
  with assms(1) show ?thesis
    by (simp add: deployAll_def split: option.split)
qed

lemma reads_base:
  assumes "well_named w"
  shows "triple fresh (deployBaseContracts w)
           (\<lambda>_. ctx_inv [''APMRegistry'', ''Repo'', ''ENSSubdomainRegistrar'', ''ENSFactory'',
                         ''Kernel'', ''ACL''])
           (\<lambda>_. reads_ok)"
proof (rule tripleI)
  fix s assume f: "fresh s"
  let ?s0 = "s\<lparr>cx := (cx s)\<lparr>contracts := Some Map.empty\<rparr>\<rparr>"
  let ?K = "[''APMRegistry'', ''Repo'', ''ENSSubdomainRegistrar'', ''ENSFactory'',
             ''Kernel'', ''ACL'']"
  have r0: "reads_ok ?s0" using f by (simp add: fresh_def reads_ok_def)
  have c0: "contracts (cx ?s0) = Some Map.empty" by simp
  have t0: "tracked ?s0" using f by (simp add: fresh_def tracked_def)
  have "wp (mapP (\<lambda>(pkg, c). getContract w pkg c) apmBaseContracts)
          (\<lambda>arts. wp (deployAll w arts) (\<lambda>_. ctx_inv ?K) (\<lambda>_. reads_ok))
          (\<lambda>_. reads_ok) ?s0"
  proof (rule wp_mapP_getContract)
    fix arts
    assume "list_all2 (\<lambda>(pkg, c) art. w_require w (artifactPath pkg c) = Inr art)
              apmBaseContracts arts"
    from names_of_artifacts [OF this assms [unfolded well_named_def]]
    have "map contractName arts = ?K"
      by (simp add: apmBaseContracts_def)
    with reads_deployAll [OF r0 c0 t0, of w arts]
    show "wp (deployAll w arts) (\<lambda>_. ctx_inv ?K) (\<lambda>_. reads_ok) ?s0"
      by simp
  qed (rule r0)
  then show "wp (deployBaseContracts w) (\<lambda>_. ctx_inv ?K) (\<lambda>_. reads_ok) s"
    by (simp add: deployBaseContracts_def)
qed

lemma reads_readManifest: "triple fresh (readManifest w) (\<lambda>_. fresh) (\<lambda>_. reads_ok)"
  by (rule tripleI)
     (simp add: readManifest_def fresh_def reads_ok_def tracked_def
        split: sum.split)

lemma reads_compile: "triple fresh (compileContracts w) (\<lambda>_. fresh) (\<lambda>_. reads_ok)"
  by (rule tripleI)
     (simp add: compileContracts_def fresh_def reads_ok_def tracked_def
        split: sum.split)

lemma reads_connect: "triple fresh (connectNetwork w args) (\<lambda>_. fresh) (\<lambda>_. reads_ok)"
  by (rule tripleI)
     (simp add: connectNetwork_def getWeb3_def fresh_def reads_ok_def tracked_def
        split: sum.split)

lemma reads_ipfs: "triple fresh (runTask (startIPFS w)) (\<lambda>_. fresh) (\<lambda>_. reads_ok)"
  by (rule tripleI)
     (simp add: runTask_def startIPFS_def startIPFS_skip_def startIPFS_task_def fresh_def reads_ok_def tracked_def
        split: sum.split)

lemma reads_daoFactory:
  assumes "''Kernel'' \<in> set ks" "''ACL'' \<in> set ks"
  shows "triple (ctx_inv ks) (deployDAOFactory w) (\<lambda>_. ctx_inv (''DAOFactory'' # ks)) (\<lambda>_. reads_ok)"
  using assms
  by (intro tripleI)
     (auto simp add: deployDAOFactory_def ctx_inv_def reads_ok_def has_def tracked_def list_all_iff
        split: option.splits sum.split list.split)

lemma reads_apmFactory:
  assumes "''DAOFactory'' \<in> set ks" "''APMRegistry'' \<in> set ks" "''Repo'' \<in> set ks" "''ENSSubdomainRegistrar'' \<in> set ks" "''ENSFactory'' \<in> set ks"
  shows "triple (ctx_inv ks) (deployAPMRegistryFactory w) (\<lambda>_. ctx_inv (''APMRegistryFactory'' # ks)) (\<lambda>_. reads_ok)"
  using assms
  by (intro tripleI)
     (auto simp add: deployAPMRegistryFactory_def ctx_inv_def reads_ok_def has_def tracked_def list_all_iff
        split: option.splits sum.split list.split)

lemma reads_createAPM:
  assumes "''APMRegistryFactory'' \<in> set ks"
  shows "triple (ctx_inv ks) (createAPMRegistry w) (\<lambda>_. ctx_inv (ks)) (\<lambda>_. reads_ok)"
  using assms
  by (intro tripleI)
     (auto simp add: createAPMRegistry_def ctx_inv_def reads_ok_def has_def tracked_def list_all_iff
        split: option.splits sum.split list.split)

lemma reads_createDAO:
  assumes "''DAOFactory'' \<in> set ks"
  shows "triple (ctx_inv ks) (createDAO w) (\<lambda>_. ctx_inv (ks)) (\<lambda>_. reads_ok)"
  using assms
  by (intro tripleI)
     (auto simp add: createDAO_def ctx_inv_def reads_ok_def has_def tracked_def list_all_iff
        split: option.splits sum.split list.split)

lemma reads_setDAOPermissions:
  "triple (ctx_inv ks) (setDAOPermissions w) (\<lambda>_. ctx_inv (ks)) (\<lambda>_. reads_ok)"
  by (intro tripleI)
     (auto simp add: setDAOPermissions_def ctx_inv_def reads_ok_def has_def tracked_def list_all_iff
        split: option.splits list.split intro!: wp_setPermissions)

lemma reads_deployAppCode:
  "triple (ctx_inv ks) (deployAppCode w args) (\<lambda>_. ctx_inv (''AppCode'' # ks)) (\<lambda>_. reads_ok)"
  by (intro tripleI)
     (auto simp add: deployAppCode_def ctx_inv_def reads_ok_def has_def tracked_def list_all_iff
        split: option.splits sum.split list.split)

lemma reads_publishApp:
  assumes "''AppCode'' \<in> set ks"
  shows "triple (ctx_inv ks) (publishApp w) (\<lambda>_. ctx_inv (ks)) (\<lambda>_. reads_ok)"
  using assms
  by (intro tripleI)
     (auto simp add: publishApp_def ctx_inv_def reads_ok_def has_def tracked_def list_all_iff
        split: option.splits sum.split list.split)

lemma reads_deployProxy:
  assumes "''AppCode'' \<in> set ks"
  shows "triple (ctx_inv ks) (deployProxy w args) (\<lambda>_. ctx_inv (ks)) (\<lambda>_. reads_ok)"
  using assms
  by (intro tripleI)
     (auto simp add: deployProxy_def ctx_inv_def reads_ok_def has_def tracked_def list_all_iff
        split: option.splits sum.split list.split)

lemma reads_setAppPermissions:
  "triple (ctx_inv ks) (setAppPermissions w args) (\<lambda>_. ctx_inv (ks)) (\<lambda>_. reads_ok)"
  by (intro tripleI)
     (auto simp add: setAppPermissions_def ctx_inv_def reads_ok_def has_def tracked_def list_all_iff
        split: option.splits list.split intro!: wp_setPermissions)

lemma reads_downloadWrapper:
  "triple (ctx_inv ks) (downloadWrapper w) (\<lambda>_. ctx_inv (ks)) (\<lambda>_. reads_ok)"
  by (intro tripleI)
     (auto simp add: downloadWrapper_def Let_def ctx_inv_def reads_ok_def has_def tracked_def list_all_iff
        split: option.splits sum.split)

lemma reads_installWrapperDeps:
  "triple (ctx_inv ks) (runTask (installWrapperDeps w)) (\<lambda>_. ctx_inv (ks)) (\<lambda>_. reads_ok)"
  by (intro tripleI)
     (auto simp add: runTask_def installWrapperDeps_def ctx_inv_def reads_ok_def has_def tracked_def list_all_iff
        split: option.splits sum.split)

lemma reads_startWrapper:
  "triple (ctx_inv ks) (startWrapper args) (\<lambda>_. ctx_inv (ks)) (\<lambda>_. reads_ok)"
  by (intro tripleI)
     (auto simp add: startWrapper_def ctx_inv_def reads_ok_def has_def tracked_def list_all_iff
        split: option.splits)

lemma reads_openWrapper:
  "triple (ctx_inv ks) (openWrapper) (\<lambda>_. ctx_inv (ks)) (\<lambda>_. reads_ok)"
  by (intro tripleI)
     (auto simp add: openWrapper_def ctx_inv_def reads_ok_def has_def tracked_def list_all_iff
        split: option.splits)

text \<open>
  Claim C4, as amended. Provided each of the six base artifacts carries the name of its
  file as its \<^verbatim>\<open>contractName\<close>: in every run of the handler, successful or not,
  whatever the outside answers, every read of \<^verbatim>\<open>ctx.contracts\<close> finds an address, and
  it is the address that the latest earlier assignment of the run has stored under that
  name. So the DAOFactory deployment finds Kernel and ACL, the APMRegistryFactory
  deployment finds DAOFactory, APMRegistry, Repo, ENSSubdomainRegistrar and ENSFactory,
  and so do the reads of the later steps (APMRegistryFactory, DAOFactory, AppCode). When
  the run succeeds, the context holds an address under each of the nine names. The base
  step stores each address under the \<^verbatim>\<open>contractName\<close> of the artifact, and the later
  steps read under the name of the file: the order of the tasks alone does not give the
  property.
\<close>

theorem contracts_populated_before_read:
  assumes "well_named w"
  shows "populated Map.empty (trace (snd (handler w args start))) \<and>
         (fst (handler w args start) = Inr () \<longrightarrow>
            has [''AppCode'', ''APMRegistryFactory'', ''DAOFactory'', ''APMRegistry'', ''Repo'',
                 ''ENSSubdomainRegistrar'', ''ENSFactory'', ''Kernel'', ''ACL'']
              (snd (handler w args start)))"
proof -
  let ?K = "[''AppCode'', ''APMRegistryFactory'', ''DAOFactory'', ''APMRegistry'', ''Repo'',
             ''ENSSubdomainRegistrar'', ''ENSFactory'', ''Kernel'', ''ACL'']"
  have "triple fresh (handler w args) (\<lambda>_. ctx_inv ?K) (\<lambda>_. reads_ok)"
    by (rule handler_triple [OF reads_readManifest reads_compile reads_connect reads_ipfs
          reads_base [OF assms] reads_daoFactory reads_apmFactory reads_createAPM
          reads_createDAO reads_setDAOPermissions reads_deployAppCode reads_publishApp
          reads_deployProxy reads_setAppPermissions reads_downloadWrapper
          reads_installWrapperDeps reads_startWrapper reads_openWrapper]) simp_all
  moreover have "fresh start"
    by (simp add: fresh_def reads_ok_def tracked_def start_def empty_ctx_def)
  ultimately have "wp (handler w args) (\<lambda>_. ctx_inv ?K) (\<lambda>_. reads_ok) start"
    by (rule tripleD)
  from wp_outcome [OF this] show ?thesis
    by (auto simp: ctx_inv_def reads_ok_def split: sum.splits)
qed

text \<open>The run in the example world: it succeeds, and this is its trace.\<close>

lemma demo_well_named: "well_named demo_world"
  by code_simp

lemma demo_outcome: "fst (handler demo_world demo_args start) = Inr ()"
  by code_simp

lemma demo_addresses:
  "registryAddress (cx (snd (handler demo_world demo_args start))) = Some ''0xapm'' \<and>
   ensAddress (cx (snd (handler demo_world demo_args start))) = Some ''0xens''"
  by code_simp

lemma demo_trace:
  "trace (snd (handler demo_world demo_args start)) =
     [Call FindProjectRoot, Call (FsExistsSync ''/app/manifest.json''),
      Await (RunTruffle [''compile'']), Call (Web3New ''ws://localhost:8545''),
      Await IsListening, Await GetAccounts, Await IsIPFSRunning,
      Skipped ''Start IPFS'' ''IPFS daemon already running'',
      AwaitAll
       [Deploy \<lparr>contractName = ''APMRegistry'', bytecode = ''0x60''\<rparr> (Some ''0xb412'') [],
        Deploy \<lparr>contractName = ''Repo'', bytecode = ''0x60''\<rparr> (Some ''0xb412'') [],
        Deploy \<lparr>contractName = ''ENSSubdomainRegistrar'', bytecode = ''0x60''\<rparr>
          (Some ''0xb412'') [],
        Deploy \<lparr>contractName = ''ENSFactory'', bytecode = ''0x60''\<rparr> (Some ''0xb412'') [],
        Deploy \<lparr>contractName = ''Kernel'', bytecode = ''0x60''\<rparr> (Some ''0xb412'') [],
        Deploy \<lparr>contractName = ''ACL'', bytecode = ''0x60''\<rparr> (Some ''0xb412'') []],
      StoreContract ''APMRegistry'' ''0xAPMRegistry'',
      StoreContract ''Repo'' ''0xRepo'',
      StoreContract ''ENSSubdomainRegistrar'' ''0xENSSubdomainRegistrar'',
      StoreContract ''ENSFactory'' ''0xENSFactory'',
      StoreContract ''Kernel'' ''0xKernel'', StoreContract ''ACL'' ''0xACL'',
      ReadContract ''Kernel'' (Some ''0xKernel''),
      ReadContract ''ACL'' (Some ''0xACL''),
      Await
       (Deploy \<lparr>contractName = ''DAOFactory'', bytecode = ''0x60''\<rparr> (Some ''0xb412'')
          [Some ''0xKernel'', Some ''0xACL'', Some ''0x0'']),
      StoreContract ''DAOFactory'' ''0xDAOFactory'',
      ReadContract ''DAOFactory'' (Some ''0xDAOFactory''),
      ReadContract ''APMRegistry'' (Some ''0xAPMRegistry''),
      ReadContract ''Repo'' (Some ''0xRepo''),
      ReadContract ''ENSSubdomainRegistrar'' (Some ''0xENSSubdomainRegistrar''),
      ReadContract ''ENSFactory'' (Some ''0xENSFactory''),
      Await
       (Deploy \<lparr>contractName = ''APMRegistryFactory'', bytecode = ''0x60''\<rparr> (Some ''0xb412'')
          [Some ''0xDAOFactory'', Some ''0xAPMRegistry'', Some ''0xRepo'',
           Some ''0xENSSubdomainRegistrar'', Some ''0x0'', Some ''0xENSFactory'']),
      StoreContract ''APMRegistryFactory'' ''0xAPMRegistryFactory'',
      ReadContract ''APMRegistryFactory'' (Some ''0xAPMRegistryFactory''),
      Await
       (MethodSend ''newAPM'' (Some ''0xAPMRegistryFactory'')
          [Namehash ''eth'', Keccak ''aragonpm'',
           Addr (Some ''0xffffffffffffffffffffffffffffffffffffffff'')]
          (Some ''0xb412'')),
      Await (MethodCall ''registrar'' (Some ''0xapm'')),
      Await (MethodCall ''ens'' (Some ''0xregistrar'')),
      Call (WriteTruffleConfig (Some ''0xens'')),
      ReadContract ''DAOFactory'' (Some ''0xDAOFactory''),
      Await
       (MethodSend ''newDAO'' (Some ''0xDAOFactory'') [Addr (Some ''0xb412'')]
          (Some ''0xb412'')),
      Await (MethodCall ''acl'' (Some ''0xdao'')),
      AwaitAll
       [MethodSend ''createPermission'' (Some ''0xacl'')
          [Addr (Some ''0xffffffffffffffffffffffffffffffffffffffff''),
           Addr (Some ''0xdao''), Keccak ''APP_MANAGER_ROLE'',
           Addr (Some ''0xffffffffffffffffffffffffffffffffffffffff'')]
          (Some ''0xb412'')],
      Await (Deploy \<lparr>contractName = ''CounterApp'', bytecode = ''0x60''\<rparr> (Some ''0xb412'') []),
      StoreContract ''AppCode'' ''0xCounterApp'',
      Call (ApmNew (Some ''0xens'')),
      ReadContract ''AppCode'' (Some ''0xCounterApp''),
      Await (PublishTask (Some ''0xCounterApp'')),
      ReadContract ''AppCode'' (Some ''0xCounterApp''),
      Await
       (MethodSend ''newAppInstance'' (Some ''0xdao'')
          [Namehash ''counter.aragonpm.eth'', Addr (Some ''0xCounterApp'')]
          (Some ''0xb412'')),
      AwaitAll
       [MethodSend ''createPermission'' (Some ''0xacl'')
          [Addr (Some ''0xffffffffffffffffffffffffffffffffffffffff''),
           Addr (Some ''0xproxy''), Keccak ''INCREMENT_ROLE'',
           Addr (Some ''0xffffffffffffffffffffffffffffffffffffffff'')]
          (Some ''0xb412''),
        MethodSend ''createPermission'' (Some ''0xacl'')
          [Addr (Some ''0xffffffffffffffffffffffffffffffffffffffff''),
           Addr (Some ''0xproxy''), Keccak ''DECREMENT_ROLE'',
           Addr (Some ''0xffffffffffffffffffffffffffffffffffffffff'')]
          (Some ''0xb412'')],
      Call (FsExistsSync ''/home/dev/.aragon/wrapper-a21100bc14daaea72d79c6eb3ecaaf5877791e09''),
      Call (FsEnsureDirSync
              ''/home/dev/.aragon/wrapper-a21100bc14daaea72d79c6eb3ecaaf5877791e09''),
      Await
       (GitClone ''https://github.com/aragon/aragon''
          ''/home/dev/.aragon/wrapper-a21100bc14daaea72d79c6eb3ecaaf5877791e09''
          ''a21100bc14daaea72d79c6eb3ecaaf5877791e09''),
      Await
       (Execa ''npm'' [''install'']
          (Some ''/home/dev/.aragon/wrapper-a21100bc14daaea72d79c6eb3ecaaf5877791e09'') []),
      Detached
       (Execa ''npm'' [''start'']
          (Some ''/home/dev/.aragon/wrapper-a21100bc14daaea72d79c6eb3ecaaf5877791e09'')
          [(''BROWSER'', Lit ''none''),
           (''REACT_APP_IPFS_GATEWAY'', Lit ''http://localhost:8080/ipfs''),
           (''REACT_APP_IPFS_RPC'', Lit ''http://localhost:5001''),
           (''REACT_APP_DEFAULT_ETH_NODE'', WsPort 8545),
           (''REACT_APP_ENS_REGISTRY_ADDRESS'', EnvAddr (Some ''0xens''))]),
      Timer 2500 (Opn ''http://localhost:3000/#/0xdao'')]"
  by code_simp


theorem contracts_populated_demo:
  "well_named demo_world \<and>
   populated Map.empty (trace (snd (handler demo_world demo_args start))) \<and>
   has [''AppCode'', ''APMRegistryFactory'', ''DAOFactory'', ''APMRegistry'', ''Repo'',
        ''ENSSubdomainRegistrar'', ''ENSFactory'', ''Kernel'', ''ACL'']
     (snd (handler demo_world demo_args start))"
  using contracts_populated_before_read [of demo_world demo_args] demo_well_named demo_outcome
  by simp

text \<open>
  Against the claim as first stated: in the world where the artifact of
  \<^verbatim>\<open>Kernel.json\<close> carries the name \<^verbatim>\<open>KernelStorage\<close>, the tasks run in the same order,
  the base step stores the address under \<^verbatim>\<open>KernelStorage\<close>, and the DAOFactory
  deployment reads \<^verbatim>\<open>ctx.contracts['Kernel']\<close> and finds nothing.
\<close>

theorem contracts_read_before_populated:
  "list_ex (\<lambda>ev. ev = ReadContract ''Kernel'' None)
     (trace (snd (handler misnamed_world demo_args start))) \<and>
   \<not> populated Map.empty (trace (snd (handler misnamed_world demo_args start)))"
  by code_simp

subsection \<open>Connecting to the network\<close>

text \<open>
  Claim C5. The step \<^verbatim>\<open>Connect to the provided Ethereum network\<close> builds a web3 instance
  on the configured provider and asks whether the node is listening. If the node answers
  (whatever the answer), that instance is kept as it is, no development chain is started,
  and the accounts are fetched from it. If building the instance or asking fails,
  \<^verbatim>\<open>devchain.task\<close> is started and awaited; once it has completed, a new web3 instance is
  built on the configured provider (the handler knows no other endpoint: the chain is
  expected to listen there) and only then are the accounts fetched. If
  \<^verbatim>\<open>devchain.task\<close> itself fails, the step fails with its error and the accounts are not
  fetched. Fetching the accounts is the last thing the step does, and its failure is the
  failure of the step.
\<close>

theorem connectNetwork_fallback:
  "(w_Web3 w (provider args) = Inr () \<and> w_isListening w = Inr connected \<longrightarrow>
      connectNetwork w args s =
        (case w_getAccounts w of
           Inl e \<Rightarrow>
             (Inl e, s\<lparr>cx := (cx s)\<lparr>web3 := Some (provider args)\<rparr>,
                       trace := trace s @ [Call (Web3New (provider args)), Await IsListening,
                                           Await GetAccounts]\<rparr>)
         | Inr accs \<Rightarrow>
             (Inr (), s\<lparr>cx := (cx s)\<lparr>web3 := Some (provider args), accounts := Some accs\<rparr>,
                        trace := trace s @ [Call (Web3New (provider args)), Await IsListening,
                                            Await GetAccounts]\<rparr>))) \<and>
   (w_Web3 w (provider args) = Inr () \<and> w_isListening w = Inl e \<and> w_devchain w = Inr () \<longrightarrow>
      connectNetwork w args s =
        (case w_getAccounts w of
           Inl e \<Rightarrow>
             (Inl e, s\<lparr>cx := (cx s)\<lparr>web3 := Some (provider args)\<rparr>,
                       trace := trace s @ [Call (Web3New (provider args)), Await IsListening,
                                           Await DevchainTask, Call (Web3New (provider args)),
                                           Await GetAccounts]\<rparr>)
         | Inr accs \<Rightarrow>
             (Inr (), s\<lparr>cx := (cx s)\<lparr>web3 := Some (provider args), accounts := Some accs\<rparr>,
                        trace := trace s @ [Call (Web3New (provider args)), Await IsListening,
                                            Await DevchainTask, Call (Web3New (provider args)),
                                            Await GetAccounts]\<rparr>))) \<and>
   (w_Web3 w (provider args) = Inr () \<and> w_isListening w = Inl e \<and> w_devchain w = Inl e' \<longrightarrow>
      connectNetwork w args s =
        (Inl e', s\<lparr>cx := (cx s)\<lparr>web3 := Some (provider args)\<rparr>,
                   trace := trace s @ [Call (Web3New (provider args)), Await IsListening,
                                       Await DevchainTask]\<rparr>)) \<and>
   (w_Web3 w (provider args) = Inl e \<and> w_devchain w = Inr () \<longrightarrow>
      connectNetwork w args s =
        (Inl e, s\<lparr>trace := trace s @ [Call (Web3New (provider args)), Await DevchainTask,
                                       Call (Web3New (provider args))]\<rparr>)) \<and>
   (w_Web3 w (provider args) = Inl e \<and> w_devchain w = Inl e' \<longrightarrow>
      connectNetwork w args s =
        (Inl e', s\<lparr>trace := trace s @ [Call (Web3New (provider args)),
                                        Await DevchainTask]\<rparr>))"
  by (simp add: connectNetwork_def getWeb3_def web3Eth_def await_def call_def andThen_def
        andNext_def catch_def settle_def emit_def getCtx_def setCtx_def ret_def throw_def
        split: sum.split)

text \<open>The step in the example world, and in the world whose node cannot be reached.\<close>

theorem connectNetwork_fallback_demo:
  "connectNetwork demo_world demo_args start =
     (Inr (), \<lparr>cx = empty_ctx\<lparr>web3 := Some ''ws://localhost:8545'',
                              accounts := Some [''0xb412'']\<rparr>,
               trace = [Call (Web3New ''ws://localhost:8545''), Await IsListening,
                        Await GetAccounts]\<rparr>) \<and>
   connectNetwork offline_world demo_args start =
     (Inr (), \<lparr>cx = empty_ctx\<lparr>web3 := Some ''ws://localhost:8545'',
                              accounts := Some [''0xb412'']\<rparr>,
               trace = [Call (Web3New ''ws://localhost:8545''), Await IsListening,
                        Await DevchainTask, Call (Web3New ''ws://localhost:8545''),
                        Await GetAccounts]\<rparr>)"
  using connectNetwork_fallback
          [where w = demo_world and args = demo_args and connected = True and s = start]
        connectNetwork_fallback
          [where w = offline_world and args = demo_args
             and e = "Error ''connection not open''" and s = start]
  by (simp add: demo_world_def offline_world_def demo_args_def start_def)

subsection \<open>Starting IPFS\<close>

text \<open>
  Claim C9, as amended. If an IPFS daemon is already running, the step \<^verbatim>\<open>Start IPFS\<close> is
  skipped with the message \<^verbatim>\<open>IPFS daemon already running\<close>. If none is running and IPFS
  is installed, the step starts a daemon and awaits it; its outcome is the outcome of the
  step. If none is running and IPFS is not installed, the step installs nothing and
  starts nothing: it sets a timer that opens the install instructions in the browser and
  throws, which ends the run. A failure of either question is the failure of the step.
\<close>

theorem startIPFS_outcomes:
  "(w_isIPFSRunning w = Inr True \<longrightarrow>
      runTask (startIPFS w) s =
        (Inr (), s\<lparr>trace := trace s @ [Await IsIPFSRunning,
                     Skipped ''Start IPFS'' ''IPFS daemon already running'']\<rparr>)) \<and>
   (w_isIPFSRunning w = Inr False \<and> w_isIPFSInstalled w = Inr True \<longrightarrow>
      runTask (startIPFS w) s =
        (w_startIPFSDaemon w,
         s\<lparr>trace := trace s @ [Await IsIPFSRunning, Await IsIPFSInstalled,
                                Await StartIPFSDaemon]\<rparr>)) \<and>
   (w_isIPFSRunning w = Inr False \<and> w_isIPFSInstalled w = Inr False \<longrightarrow>
      runTask (startIPFS w) s =
        (Inl (Error ''Running your app requires IPFS. Opening install instructions in your browser''),
         s\<lparr>trace := trace s @ [Await IsIPFSRunning, Await IsIPFSInstalled,
                                Timer 3000 (Opn ''https://ipfs.io/docs/install'')]\<rparr>)) \<and>
   (w_isIPFSRunning w = Inl e \<longrightarrow>
      runTask (startIPFS w) s = (Inl e, s\<lparr>trace := trace s @ [Await IsIPFSRunning]\<rparr>)) \<and>
   (w_isIPFSRunning w = Inr False \<and> w_isIPFSInstalled w = Inl e \<longrightarrow>
      runTask (startIPFS w) s =
        (Inl e, s\<lparr>trace := trace s @ [Await IsIPFSRunning, Await IsIPFSInstalled]\<rparr>))"
  by (simp add: runTask_def startIPFS_def startIPFS_skip_def startIPFS_task_def
        await_def andThen_def andNext_def settle_def emit_def getCtx_def ret_def throw_def
        split: sum.split)

text \<open>
  The step in the example world, where a daemon is running, and in a world where none is
  running and IPFS is installed.
\<close>

theorem startIPFS_outcomes_demo:
  "runTask (startIPFS demo_world) start =
     (Inr (), \<lparr>cx = empty_ctx, trace = [Await IsIPFSRunning,
                  Skipped ''Start IPFS'' ''IPFS daemon already running'']\<rparr>) \<and>
   runTask (startIPFS (demo_world\<lparr>w_isIPFSRunning := Inr False\<rparr>)) start =
     (Inr (), \<lparr>cx = empty_ctx, trace = [Await IsIPFSRunning, Await IsIPFSInstalled,
                  Await StartIPFSDaemon]\<rparr>)"
  using startIPFS_outcomes [where w = demo_world and s = start]
        startIPFS_outcomes [where w = "demo_world\<lparr>w_isIPFSRunning := Inr False\<rparr>" and s = start]
  by (simp add: demo_world_def start_def)

text \<open>
  Against the claim as first stated: no daemon is running, IPFS is not installed, and the
  step neither installs nor starts one; the workflow does not go on.
\<close>

theorem startIPFS_not_installed_fails:
  "w_isIPFSRunning no_ipfs_world = Inr False \<and>
   runTask (startIPFS no_ipfs_world) start =
     (Inl (Error ''Running your app requires IPFS. Opening install instructions in your browser''),
      \<lparr>cx = empty_ctx, trace = [Await IsIPFSRunning, Await IsIPFSInstalled,
                  Timer 3000 (Opn ''https://ipfs.io/docs/install'')]\<rparr>)"
  by (simp add: no_ipfs_world_def demo_world_def start_def
        runTask_def startIPFS_def startIPFS_skip_def startIPFS_task_def
        await_def andThen_def andNext_def settle_def emit_def getCtx_def ret_def throw_def)

subsection \<open>What each step adds to the trace\<close>

lemma extends_refl [simp]: "extends s s"
  by (simp add: extends_def)

lemma extends_emit:
  "extends s0 s \<Longrightarrow> quiet ev \<Longrightarrow> ensAddress c = ensAddress (cx s) \<Longrightarrow>
   extends s0 (s\<lparr>cx := c, trace := trace s @ [ev]\<rparr>)"
  by (auto simp: extends_def)

lemma extends_triple:
  assumes "\<And>s0. triple ((=) s0) m (\<lambda>_. extends s0) (\<lambda>_. extends s0)"
      and "\<And>s0 s. P s0 \<Longrightarrow> extends s0 s \<Longrightarrow> Q s"
      and "\<And>s0 s. P s0 \<Longrightarrow> extends s0 s \<Longrightarrow> E s"
  shows "triple P m (\<lambda>_. Q) (\<lambda>_. E)"
proof (rule tripleI)
  fix s assume "P s"
  have "wp m (\<lambda>_. extends s) (\<lambda>_. extends s) s"
    by (rule tripleD [OF assms(1)]) simp
  then show "wp m (\<lambda>_. Q) (\<lambda>_. E) s"
    by (rule wp_mono) (use \<open>P s\<close> assms(2,3) in auto)
qed

lemma all_createPermission:
  "list_all is_createPermission (map (\<lambda>(who, wher, what).
      MethodSend ''createPermission'' aclAddr
        [Addr who, Addr wher, Keccak what, Addr who] sender) perms)"
  by (induction perms) auto

lemma all_deploy: "list_all is_deploy (map (\<lambda>artifact. Deploy artifact sender []) arts)"
  by (induction arts) auto

lemma extends_setPermissions:
  "wp (setPermissions w sender aclAddr perms) (\<lambda>_. extends s) (\<lambda>_. extends s) s"
  by (rule wp_setPermissions) (simp_all add: extends_def quiet_def all_createPermission)

lemma extends_deploy_each:
  assumes "extends s0 s"
  shows "wp (forEachP (\<lambda>artifact.
           andThen (settle (w_deploy w artifact [])) (\<lambda>contractAddress.
             storeContract (contractName artifact) contractAddress)) arts)
        (\<lambda>_. extends s0) (\<lambda>_. extends s0) s"
  using assms
proof (induction arts arbitrary: s)
  case Nil
  then show ?case by simp
next
  case (Cons a arts)
  show ?case
  proof (cases "w_deploy w a []")
    case (Inl e)
    with Cons.prems show ?thesis by simp
  next
    case deployed: (Inr addr)
    show ?thesis
    proof (cases "contracts (cx s)")
      case None
      with deployed Cons.prems show ?thesis by simp
    next
      case (Some m)
      have "extends s0 (s\<lparr>cx := (cx s)\<lparr>contracts := Some (m(contractName a \<mapsto> addr))\<rparr>,
                 trace := trace s @ [StoreContract (contractName a) addr]\<rparr>)"
        by (rule extends_emit [OF Cons.prems]) (simp_all add: quiet_def)
      from Cons.IH [OF this] deployed Some show ?thesis by simp
    qed
  qed
qed

lemma extends_deployAll:
  "wp (deployAll w arts) (\<lambda>_. extends s) (\<lambda>_. extends s) s"
proof -
  { fix sender :: "address option"
    have "extends s (s\<lparr>trace := trace s @
            [AwaitAll (map (\<lambda>artifact. Deploy artifact sender []) arts)]\<rparr>)"
      by (simp add: extends_def quiet_def all_deploy)
    then have "wp (forEachP (\<lambda>artifact.
           andThen (settle (w_deploy w artifact [])) (\<lambda>contractAddress.
             storeContract (contractName artifact) contractAddress)) arts)
        (\<lambda>_. extends s) (\<lambda>_. extends s)
        (s\<lparr>trace := trace s @ [AwaitAll (map (\<lambda>artifact. Deploy artifact sender []) arts)]\<rparr>)"
      by (rule extends_deploy_each)
  }
  then show ?thesis
    by (simp add: deployAll_def split: option.split)
qed

lemma adds_readManifest:
  "triple ((=) s0) (readManifest w) (\<lambda>_. extends s0) (\<lambda>_. extends s0)"
  by (rule tripleI) (auto simp add: readManifest_def extends_def quiet_def split: sum.split)

lemma adds_compile:
  "triple ((=) s0) (compileContracts w) (\<lambda>_. extends s0) (\<lambda>_. extends s0)"
  by (rule tripleI) (auto simp add: compileContracts_def extends_def quiet_def split: sum.split)

lemma adds_connect:
  "triple ((=) s0) (connectNetwork w args) (\<lambda>_. extends s0) (\<lambda>_. extends s0)"
  by (rule tripleI)
     (auto simp add: connectNetwork_def getWeb3_def extends_def quiet_def split: sum.split)

lemma adds_ipfs:
  "triple ((=) s0) (runTask (startIPFS w)) (\<lambda>_. extends s0) (\<lambda>_. extends s0)"
  by (rule tripleI)
     (auto simp add: runTask_def startIPFS_def startIPFS_skip_def startIPFS_task_def
        extends_def quiet_def split: sum.split)

lemma adds_base:
  "triple ((=) s0) (deployBaseContracts w) (\<lambda>_. extends s0) (\<lambda>_. extends s0)"
proof (rule tripleI)
  fix s assume s: "s0 = s"
  let ?s1 = "s\<lparr>cx := (cx s)\<lparr>contracts := Some Map.empty\<rparr>\<rparr>"
  have e: "\<And>t. extends ?s1 t \<Longrightarrow> extends s0 t"
    by (simp add: extends_def s)
  have "wp (mapP (\<lambda>(pkg, c). getContract w pkg c) apmBaseContracts)
          (\<lambda>arts. wp (deployAll w arts) (\<lambda>_. extends s0) (\<lambda>_. extends s0))
          (\<lambda>_. extends s0) ?s1"
    by (rule wp_mapP_getContract)
       (simp add: extends_def s, rule wp_mono [OF extends_deployAll], (rule e, assumption)+)
  then show "wp (deployBaseContracts w) (\<lambda>_. extends s0) (\<lambda>_. extends s0) s"
    by (simp add: deployBaseContracts_def)
qed

lemma adds_daoFactory:
  "triple ((=) s0) (deployDAOFactory w) (\<lambda>_. extends s0) (\<lambda>_. extends s0)"
  by (rule tripleI)
     (auto simp add: deployDAOFactory_def extends_def quiet_def
        split: option.split sum.split list.split)

lemma adds_apmFactory:
  "triple ((=) s0) (deployAPMRegistryFactory w) (\<lambda>_. extends s0) (\<lambda>_. extends s0)"
  by (rule tripleI)
     (auto simp add: deployAPMRegistryFactory_def extends_def quiet_def
        split: option.split sum.split list.split)

lemma adds_createDAO:
  "triple ((=) s0) (createDAO w) (\<lambda>_. extends s0) (\<lambda>_. extends s0)"
  by (rule tripleI)
     (auto simp add: createDAO_def extends_def quiet_def
        split: option.split sum.split list.split)

lemma adds_setDAOPermissions:
  "triple ((=) s0) (setDAOPermissions w) (\<lambda>_. extends s0) (\<lambda>_. extends s0)"
  by (rule tripleI)
     (auto simp add: setDAOPermissions_def split: option.split list.split
        intro!: extends_setPermissions)

lemma adds_deployAppCode:
  "triple ((=) s0) (deployAppCode w args) (\<lambda>_. extends s0) (\<lambda>_. extends s0)"
  by (rule tripleI)
     (auto simp add: deployAppCode_def extends_def quiet_def
        split: option.split sum.split list.split)

lemma adds_publishApp:
  "triple ((=) s0) (publishApp w) (\<lambda>_. extends s0) (\<lambda>_. extends s0)"
  by (rule tripleI)
     (auto simp add: publishApp_def extends_def quiet_def
        split: option.split sum.split list.split)

lemma adds_deployProxy:
  "triple ((=) s0) (deployProxy w args) (\<lambda>_. extends s0) (\<lambda>_. extends s0)"
  by (rule tripleI)
     (auto simp add: deployProxy_def extends_def quiet_def
        split: option.split sum.split list.split)

lemma adds_setAppPermissions:
  "triple ((=) s0) (setAppPermissions w args) (\<lambda>_. extends s0) (\<lambda>_. extends s0)"
  by (rule tripleI)
     (auto simp add: setAppPermissions_def split: option.split list.split
        intro!: extends_setPermissions)

lemma adds_downloadWrapper:
  "triple ((=) s0) (downloadWrapper w) (\<lambda>_. extends s0) (\<lambda>_. extends s0)"
  by (rule tripleI)
     (auto simp add: downloadWrapper_def Let_def extends_def quiet_def
        split: option.split sum.split)

lemma adds_installWrapperDeps:
  "triple ((=) s0) (runTask (installWrapperDeps w)) (\<lambda>_. extends s0) (\<lambda>_. extends s0)"
  by (rule tripleI)
     (auto simp add: runTask_def installWrapperDeps_def extends_def quiet_def
        split: option.split sum.split)

lemma adds_startWrapper:
  "triple ((=) s0) (startWrapper args) (\<lambda>_. extends s0) (\<lambda>_. extends s0)"
  by (rule tripleI) (auto simp add: startWrapper_def extends_def quiet_def)

lemma adds_openWrapper:
  "triple ((=) s0) openWrapper (\<lambda>_. extends s0) (\<lambda>_. extends s0)"
  by (rule tripleI) (auto simp add: openWrapper_def extends_def quiet_def)

subsection \<open>Writing the truffle configuration\<close>

lemma filter_quiet: "list_all quiet evs \<Longrightarrow> filter is_config_write evs = []"
  by (induction evs) (auto simp: quiet_def)

lemma unwritten_extends: "unwritten s0 \<Longrightarrow> extends s0 s \<Longrightarrow> unwritten s"
  by (auto simp: unwritten_def extends_def filter_quiet)

lemma unwritten_extends_once: "unwritten s0 \<Longrightarrow> extends s0 s \<Longrightarrow> at_most_once s"
  by (auto simp: unwritten_def at_most_once_def extends_def filter_quiet)

lemma written_extends: "written s0 \<Longrightarrow> extends s0 s \<Longrightarrow> written s"
  by (auto simp: written_def extends_def filter_quiet)

lemma written_extends_once: "written s0 \<Longrightarrow> extends s0 s \<Longrightarrow> at_most_once s"
  by (auto simp: written_def at_most_once_def extends_def filter_quiet)

lemma writes_createAPM:
  "triple unwritten (createAPMRegistry w) (\<lambda>_. written) (\<lambda>_. at_most_once)"
  by (rule tripleI)
     (auto simp add: createAPMRegistry_def unwritten_def written_def at_most_once_def
        split: option.split sum.split list.split)

text \<open>
  Claim C7, as amended. No run of the handler calls \<^verbatim>\<open>writeTruffleConfig\<close> more than
  once, and a successful run calls it exactly once, in the step \<^verbatim>\<open>Create APM registry\<close>;
  no other step of the handler writes the file. What it records is \<^verbatim>\<open>ctx.ensAddress\<close>,
  the address of the ENS registry that the registrar of the new APM registry names, and
  not \<^verbatim>\<open>ctx.registryAddress\<close>, the address of the package registry itself.
\<close>

theorem truffle_config_written_once:
  "length (filter is_config_write (trace (snd (handler w args start)))) \<le> 1 \<and>
   (fst (handler w args start) = Inr () \<longrightarrow>
      ensAddress (cx (snd (handler w args start))) \<noteq> None \<and>
      filter is_config_write (trace (snd (handler w args start))) =
        [Call (WriteTruffleConfig (ensAddress (cx (snd (handler w args start)))))])"
proof -
  note u = extends_triple [where P = unwritten and Q = unwritten and E = at_most_once,
      OF _ unwritten_extends unwritten_extends_once]
  note v = extends_triple [where P = written and Q = written and E = at_most_once,
      OF _ written_extends written_extends_once]
  have "triple unwritten (handler w args) (\<lambda>_. written) (\<lambda>_. at_most_once)"
    by (rule handler_triple [OF u [OF adds_readManifest] u [OF adds_compile]
          u [OF adds_connect] u [OF adds_ipfs] u [OF adds_base] u [OF adds_daoFactory]
          u [OF adds_apmFactory] writes_createAPM v [OF adds_createDAO]
          v [OF adds_setDAOPermissions] v [OF adds_deployAppCode] v [OF adds_publishApp]
          v [OF adds_deployProxy] v [OF adds_setAppPermissions] v [OF adds_downloadWrapper]
          v [OF adds_installWrapperDeps] v [OF adds_startWrapper] v [OF adds_openWrapper]])
  moreover have "unwritten start" by (simp add: unwritten_def start_def)
  ultimately have "wp (handler w args) (\<lambda>_. written) (\<lambda>_. at_most_once) start"
    by (rule tripleD)
  from wp_outcome [OF this] show ?thesis
    by (auto simp: written_def at_most_once_def split: sum.splits)
qed

text \<open>The run in the example world writes the ENS address \<^verbatim>\<open>0xens\<close>, once.\<close>

theorem truffle_config_written_once_demo:
  "fst (handler demo_world demo_args start) = Inr () \<and>
   ensAddress (cx (snd (handler demo_world demo_args start))) = Some ''0xens'' \<and>
   filter is_config_write (trace (snd (handler demo_world demo_args start))) =
     [Call (WriteTruffleConfig (Some ''0xens''))]"
  using truffle_config_written_once [of demo_world demo_args] demo_outcome demo_addresses
  by simp

text \<open>
  Against the claim as first stated: in the example world the package registry is at
  \<^verbatim>\<open>0xapm\<close>, and that is not the address the run records.
\<close>

theorem truffle_config_not_apm_registry:
  "registryAddress (cx (snd (handler demo_world demo_args start))) = Some ''0xapm'' \<and>
   filter is_config_write (trace (snd (handler demo_world demo_args start))) \<noteq>
     [Call (WriteTruffleConfig (registryAddress (cx (snd (handler demo_world demo_args start)))))]"
  by (simp add: demo_addresses demo_trace)

subsection \<open>What runs concurrently\<close>

lemma shaped_extends: "shaped s0 \<Longrightarrow> extends s0 s \<Longrightarrow> shaped s"
  by (auto simp: shaped_def extends_def quiet_def list_all_iff)

lemma shaped_createAPM: "triple shaped (createAPMRegistry w) (\<lambda>_. shaped) (\<lambda>_. shaped)"
  by (rule tripleI)
     (auto simp add: createAPMRegistry_def shaped_def split: option.split sum.split list.split)

lemma triple_top: "triple P m (\<lambda>_ _. True) (\<lambda>_ _. True)"
  by (simp add: triple_def wp_def split: prod.split sum.split)

lemma occurs_extends: "occurs P s0 \<Longrightarrow> extends s0 s \<Longrightarrow> occurs P s"
  by (auto simp: occurs_def extends_def list_ex_iff)

lemma occurs_createAPM:
  "triple (occurs P) (createAPMRegistry w) (\<lambda>_. occurs P) (\<lambda>_ _. True)"
  by (rule tripleI)
     (auto simp add: createAPMRegistry_def occurs_def split: option.split sum.split list.split)

lemma occurs_deployAll:
  assumes "length arts = n"
  shows "wp (deployAll w arts) (\<lambda>_. occurs (joint_deploys n)) (\<lambda>_ _. True) s"
proof -
  { fix sender :: "address option"
    let ?s1 = "s\<lparr>trace := trace s @
                 [AwaitAll (map (\<lambda>artifact. Deploy artifact sender []) arts)]\<rparr>"
    have o: "occurs (joint_deploys n) ?s1"
      using assms by (simp add: occurs_def all_deploy)
    have "wp (forEachP (\<lambda>artifact.
           andThen (settle (w_deploy w artifact [])) (\<lambda>contractAddress.
             storeContract (contractName artifact) contractAddress)) arts)
        (\<lambda>_. occurs (joint_deploys n)) (\<lambda>_ _. True) ?s1"
      by (rule wp_mono [OF extends_deploy_each [OF extends_refl]])
         (rule occurs_extends [OF o], simp_all)
  }
  then show ?thesis
    by (simp add: deployAll_def split: option.split)
qed

lemma occurs_base:
  "triple (\<lambda>_. True) (deployBaseContracts w) (\<lambda>_. occurs (joint_deploys 6)) (\<lambda>_ _. True)"
proof (rule tripleI)
  fix s :: run_state
  let ?s0 = "s\<lparr>cx := (cx s)\<lparr>contracts := Some Map.empty\<rparr>\<rparr>"
  have "wp (mapP (\<lambda>(pkg, c). getContract w pkg c) apmBaseContracts)
          (\<lambda>arts. wp (deployAll w arts) (\<lambda>_. occurs (joint_deploys 6)) (\<lambda>_ _. True))
          (\<lambda>_ _. True) ?s0"
  proof (rule wp_mapP_getContract)
    fix arts
    assume "list_all2 (\<lambda>(pkg, c) art. w_require w (artifactPath pkg c) = Inr art)
              apmBaseContracts arts"
    then have "length arts = 6"
      by (auto dest: list_all2_lengthD simp add: apmBaseContracts_def)
    then show "wp (deployAll w arts) (\<lambda>_. occurs (joint_deploys 6)) (\<lambda>_ _. True) ?s0"
      by (rule occurs_deployAll)
  qed simp
  then show "wp (deployBaseContracts w) (\<lambda>_. occurs (joint_deploys 6)) (\<lambda>_ _. True) s"
    by (simp add: deployBaseContracts_def)
qed

lemma occurs_setAppPermissions:
  "triple (\<lambda>_. True) (setAppPermissions w args)
     (\<lambda>_. occurs (joint_permissions
             (length (case module_roles args of None \<Rightarrow> [] | Some roles \<Rightarrow> roles))))
     (\<lambda>_ _. True)"
  by (intro tripleI)
     (auto simp add: setAppPermissions_def occurs_def list_all_iff
        split: option.split list.split intro!: wp_setPermissions)

lemma occurs_startWrapper:
  "triple (\<lambda>_. True) (startWrapper args) (\<lambda>_. occurs detached_npm_start) (\<lambda>_ _. True)"
  by (rule tripleI) (simp add: startWrapper_def occurs_def)

lemma occurs_openWrapper:
  "triple (\<lambda>_. True) openWrapper (\<lambda>_. occurs delayed_opn) (\<lambda>_ _. True)"
  by (rule tripleI) (simp add: openWrapper_def occurs_def)

lemma occurs_kept:
  assumes "\<And>s0. triple ((=) s0) m (\<lambda>_. extends s0) (\<lambda>_. extends s0)"
  shows "triple (occurs P) m (\<lambda>_. occurs P) (\<lambda>_ _. True)"
  by (rule extends_triple [OF assms]) (auto intro: occurs_extends)

lemma occurs_outcome:
  assumes "triple (\<lambda>_. True) m (\<lambda>_. occurs P) (\<lambda>_ _. True)"
  shows "fst (m s) = Inr () \<Longrightarrow> list_ex P (trace (snd (m s)))"
proof -
  have "wp m (\<lambda>_. occurs P) (\<lambda>_ _. True) s"
    by (rule tripleD [OF assms]) simp
  from wp_outcome [OF this] show "fst (m s) = Inr () \<Longrightarrow> list_ex P (trace (snd (m s)))"
    by (simp add: occurs_def)
qed


text \<open>
  The run in the example world succeeds: six deployments are awaited jointly, so are the
  two \<^verbatim>\<open>createPermission\<close> transactions for the roles of the app, \<^verbatim>\<open>npm start\<close> is
  launched without being awaited, and a timer opens the browser.
\<close>

lemma demo_roles:
  "length (case module_roles demo_args of None \<Rightarrow> [] | Some roles \<Rightarrow> roles) = 2"
  by (simp add: demo_args_def)



end
